theory Spec2Isabelle
  imports
    Complex_Main
    "HOL-Library.AList"
    "HOL-Library.Char_ord"
    "HOL-Library.List_Lexorder"
    "HOL-Library.Product_Lexorder"
begin

section \<open>Python values\<close>

text \<open>
  The three modules work on dynamically typed data: JSON-like rule sets, usage payloads
  and cache entries. Strings are \<^typ>\<open>string\<close>; a Python \<open>dict\<close> with string keys is an
  association list in insertion order (\<open>AList.update\<close> overwrites in place or appends,
  \<open>AList.delete\<close> removes, \<open>map_of\<close> looks up); a JSON number with a fraction is a
  rational. Exceptions are values of \<open>error\<close>; a function that can raise returns
  \<open>error + 'a\<close> with \<open>Inl\<close> for the exception.
\<close>

datatype error =
  ValidationError | ValueError | TypeError | KeyError | IndexError | AttributeError | ReError

record ReplaceValueRule =
  search :: string
  replace :: string
  regex :: bool
  case_sensitive :: bool

datatype pyval =
    PNone
  | PBool bool
  | PInt int
  | PFloat rat
  | PStr string
  | PList "pyval list"
  | PDict "(string \<times> pyval) list"
  | PRule ReplaceValueRule

text \<open>Python truthiness (\<open>if x:\<close>, \<open>not x\<close>, \<open>any\<close>, \<open>x or y\<close>).\<close>

fun truthy :: "pyval \<Rightarrow> bool" where
  "truthy PNone = False"
| "truthy (PBool b) = b"
| "truthy (PInt i) = (i \<noteq> 0)"
| "truthy (PFloat r) = (r \<noteq> 0)"
| "truthy (PStr s) = (s \<noteq> [])"
| "truthy (PList xs) = (xs \<noteq> [])"
| "truthy (PDict d) = (d \<noteq> [])"
| "truthy (PRule r) = True"

definition is_str :: "pyval \<Rightarrow> bool" where
  "is_str v = (case v of PStr s \<Rightarrow> True | _ \<Rightarrow> False)"

text \<open>\<open>d.get(k, default)\<close>.\<close>

definition dict_get_default :: "(string \<times> 'v) list \<Rightarrow> string \<Rightarrow> 'v \<Rightarrow> 'v" where
  "dict_get_default d k dflt = (case map_of d k of None \<Rightarrow> dflt | Some v \<Rightarrow> v)"

text \<open>
  The built-in \<open>int(x)\<close>. Parsing a \<open>str\<close> is Python's own; it is the parameter
  \<open>int_of_str\<close> (\<open>None\<close> when \<open>int\<close> raises \<open>ValueError\<close>). A float is truncated towards
  zero.
\<close>

fun py_int :: "(string \<Rightarrow> int option) \<Rightarrow> pyval \<Rightarrow> error + int" where
  "py_int int_of_str (PInt i) = Inr i"
| "py_int int_of_str (PBool b) = Inr (if b then 1 else 0)"
| "py_int int_of_str (PFloat r) = Inr (if 0 \<le> r then \<lfloor>r\<rfloor> else \<lceil>r\<rceil>)"
| "py_int int_of_str (PStr s) =
     (case int_of_str s of None \<Rightarrow> Inl ValueError | Some i \<Rightarrow> Inr i)"
| "py_int int_of_str PNone = Inl TypeError"
| "py_int int_of_str (PList xs) = Inl TypeError"
| "py_int int_of_str (PDict d) = Inl TypeError"
| "py_int int_of_str (PRule r) = Inl TypeError"

section \<open>Usage field extractor (src/api/handlers/base/utils.py)\<close>

text \<open>
  \<open>extract_cache_creation_tokens(usage)\<close>. The three tiers are kept as the three blocks of
  the source. \<open>legacy_or_zero\<close> is the tail shared by the nested and the flat block:
  \<open>old_format = int(usage.get("cache_creation_input_tokens", 0))\<close>, returned when
  \<open>old_format > 0\<close>, else \<open>0\<close>.
\<close>

definition legacy_or_zero ::
  "(string \<Rightarrow> int option) \<Rightarrow> (string \<times> pyval) list \<Rightarrow> error + int" where
  "legacy_or_zero int_of_str usage =
     (case py_int int_of_str (dict_get_default usage ''cache_creation_input_tokens'' (PInt 0)) of
        Inl e \<Rightarrow> Inl e
      | Inr old_format \<Rightarrow> if old_format > 0 then Inr old_format else Inr 0)"

definition sum_or_legacy ::
  "(string \<Rightarrow> int option) \<Rightarrow> (string \<times> pyval) list \<Rightarrow> pyval \<Rightarrow> pyval \<Rightarrow> error + int" where
  "sum_or_legacy int_of_str usage v5m v1h =
     (case py_int int_of_str v5m of
        Inl e \<Rightarrow> Inl e
      | Inr cache_5m \<Rightarrow>
          (case py_int int_of_str v1h of
             Inl e \<Rightarrow> Inl e
           | Inr cache_1h \<Rightarrow>
               (let total = cache_5m + cache_1h
                in if total > 0 then Inr total else legacy_or_zero int_of_str usage)))"

definition extract_cache_creation_tokens ::
  "(string \<Rightarrow> int option) \<Rightarrow> (string \<times> pyval) list \<Rightarrow> error + int" where
  "extract_cache_creation_tokens int_of_str usage =
     (case map_of usage ''cache_creation'' of
        Some (PDict cache_creation) \<Rightarrow>
          sum_or_legacy int_of_str usage
            (dict_get_default cache_creation ''ephemeral_5m_input_tokens'' (PInt 0))
            (dict_get_default cache_creation ''ephemeral_1h_input_tokens'' (PInt 0))
      | _ \<Rightarrow>
          (let has_flat_format =
                 (''claude_cache_creation_5_m_tokens'' \<in> set (map fst usage)
                  \<or> ''claude_cache_creation_1_h_tokens'' \<in> set (map fst usage))
           in if has_flat_format then
                sum_or_legacy int_of_str usage
                  (dict_get_default usage ''claude_cache_creation_5_m_tokens'' (PInt 0))
                  (dict_get_default usage ''claude_cache_creation_1_h_tokens'' (PInt 0))
              else
                py_int int_of_str
                  (dict_get_default usage ''cache_creation_input_tokens'' (PInt 0))))"


text \<open>
  An instance of \<open>int_of_str\<close> for the examples: an optional sign followed by one or more
  decimal digits (Python accepts more: surrounding whitespace, underscores between digits).
\<close>

definition digit_value :: "char \<Rightarrow> nat option" where
  "digit_value c =
     (if CHR ''0'' \<le> c \<and> c \<le> CHR ''9''
      then Some (of_char c - of_char (CHR ''0'')) else None)"

fun digits_value :: "nat \<Rightarrow> string \<Rightarrow> nat option" where
  "digits_value acc [] = Some acc"
| "digits_value acc (c # cs) =
     (case digit_value c of None \<Rightarrow> None | Some d \<Rightarrow> digits_value (10 * acc + d) cs)"

definition decimal_int_of_str :: "string \<Rightarrow> int option" where
  "decimal_int_of_str s =
     (case s of
        [] \<Rightarrow> None
      | c # cs \<Rightarrow>
          if c = CHR ''-'' \<and> cs \<noteq> [] then map_option (\<lambda>n. - int n) (digits_value 0 cs)
          else if c = CHR ''+'' \<and> cs \<noteq> [] then map_option int (digits_value 0 cs)
          else map_option int (digits_value 0 s))"

section \<open>Header rule engine (src/core/header_rules.py)\<close>

subsection \<open>Strings\<close>

text \<open>
  Lower-casing of the ASCII letters. pydantic compares the words of a boolean without
  regard to ASCII case, and the examples use it as their \<open>str.lower\<close>.
\<close>

definition ascii_lower_char :: "char \<Rightarrow> char" where
  "ascii_lower_char c =
     (if CHR ''A'' \<le> c \<and> c \<le> CHR ''Z'' then char_of (of_char c + (32::nat)) else c)"

definition ascii_lower :: "string \<Rightarrow> string" where
  "ascii_lower s = map ascii_lower_char s"

text \<open>
  \<open>s.replace(old, new)\<close>: every non-overlapping occurrence of \<open>old\<close>, scanning from the
  left; an empty \<open>old\<close> matches before every character and at the end.
\<close>

function replace_nonempty :: "string \<Rightarrow> string \<Rightarrow> string \<Rightarrow> string" where
  "replace_nonempty old new [] = []"
| "replace_nonempty old new (c # cs) =
     (if old \<noteq> [] \<and> take (length old) (c # cs) = old
      then new @ replace_nonempty old new (drop (length old) (c # cs))
      else c # replace_nonempty old new cs)"
  by pat_completeness auto
termination
  by (relation "measure (\<lambda>(old, new, s). length s)") auto

definition str_replace :: "string \<Rightarrow> string \<Rightarrow> string \<Rightarrow> string" where
  "str_replace s old new =
     (if old = [] then new @ concat (map (\<lambda>c. c # new) s) else replace_nonempty old new s)"

subsection \<open>What the engine takes from Python\<close>

text \<open>
  The \<open>re\<close> module and \<open>str.lower\<close> are parameters of the engine. \<open>compiles p i\<close> says
  that \<open>re.compile(p, flags)\<close> succeeds, where \<open>i\<close> is the \<open>IGNORECASE\<close> flag; it raises
  \<open>re.error\<close> otherwise. \<open>pattern_sub p i repl s\<close> is \<open>re.compile(p, flags).sub(repl, s)\<close>:
  the new string, or the exception that the replacement template raises (\<open>re.error\<close> for
  a bad escape or group number, \<open>IndexError\<close> for an unknown group name). \<open>escape\<close> is
  \<open>re.escape\<close>, and \<open>str_lower\<close> is \<open>str.lower\<close>.
\<close>

record python =
  compiles :: "string \<Rightarrow> bool \<Rightarrow> bool"
  pattern_sub :: "string \<Rightarrow> bool \<Rightarrow> string \<Rightarrow> string \<Rightarrow> error + string"
  escape :: "string \<Rightarrow> string"
  str_lower :: "string \<Rightarrow> string"

text \<open>\<open>re.sub(pattern, repl, string, flags=flags)\<close> compiles the pattern, then substitutes.\<close>

definition re_sub :: "python \<Rightarrow> string \<Rightarrow> string \<Rightarrow> string \<Rightarrow> bool \<Rightarrow> error + string" where
  "re_sub py pattern repl s ignorecase =
     (if compiles py pattern ignorecase then pattern_sub py pattern ignorecase repl s
      else Inl ReError)"


subsection \<open>Sequencing of calls that can raise\<close>

fun rbind :: "error + 'a \<Rightarrow> ('a \<Rightarrow> error + 'b) \<Rightarrow> error + 'b" where
  "rbind (Inl e) f = Inl e"
| "rbind (Inr x) f = f x"

fun fold_r :: "('b \<Rightarrow> 'a \<Rightarrow> error + 'b) \<Rightarrow> 'b \<Rightarrow> 'a list \<Rightarrow> error + 'b" where
  "fold_r f acc [] = Inr acc"
| "fold_r f acc (x # xs) = rbind (f acc x) (\<lambda>acc'. fold_r f acc' xs)"

fun map_r :: "('a \<Rightarrow> error + 'b) \<Rightarrow> 'a list \<Rightarrow> error + 'b list" where
  "map_r f [] = Inr []"
| "map_r f (x # xs) = rbind (f x) (\<lambda>y. rbind (map_r f xs) (\<lambda>ys. Inr (y # ys)))"


subsection \<open>Rule models (pydantic)\<close>

text \<open>
  Field validation as pydantic (version 2, the one that has \<open>field_validator\<close>) performs
  it on the values of this development. A \<open>str\<close> field takes a string only. A \<open>bool\<close>
  field takes a boolean, the numbers 0 and 1, and the usual yes/no words in any case.
  Every failure surfaces as \<open>ValidationError\<close>.
\<close>

fun validate_str :: "pyval \<Rightarrow> error + string" where
  "validate_str (PStr s) = Inr s"
| "validate_str v = Inl ValidationError"

fun validate_bool :: "pyval \<Rightarrow> error + bool" where
  "validate_bool (PBool b) = Inr b"
| "validate_bool (PInt i) =
     (if i = 0 then Inr False else if i = 1 then Inr True else Inl ValidationError)"
| "validate_bool (PFloat r) =
     (if r = 0 then Inr False else if r = 1 then Inr True else Inl ValidationError)"
| "validate_bool (PStr s) =
     (if ascii_lower s \<in> set [''0'', ''off'', ''f'', ''false'', ''n'', ''no''] then Inr False
      else if ascii_lower s \<in> set [''1'', ''on'', ''t'', ''true'', ''y'', ''yes''] then Inr True
      else Inl ValidationError)"
| "validate_bool v = Inl ValidationError"

text \<open>
  \<open>ReplaceValueRule.validate_search(v, info)\<close>: reads \<open>regex\<close> from \<open>info.data\<close> (default
  \<open>False\<close>) and compiles \<open>v\<close> when it is set. \<open>info_data\<close> is \<open>info.data\<close>, the fields
  validated before this one.
\<close>

definition validate_search ::
  "python \<Rightarrow> string \<Rightarrow> (string \<times> pyval) list \<Rightarrow> error + string" where
  "validate_search py v info_data =
     (let regex = dict_get_default info_data ''regex'' (PBool False)
      in if truthy regex then (if compiles py v False then Inr v else Inl ValueError)
         else Inr v)"

text \<open>
  \<open>ReplaceValueRule(**kwargs)\<close>. pydantic validates the fields in the order of their
  declaration: \<open>search\<close>, \<open>replace\<close>, \<open>regex\<close>, \<open>case_sensitive\<close>. \<open>search\<close> is declared
  first, so its validator runs while \<open>info.data\<close> is still empty. \<open>search\<close> and \<open>replace\<close>
  are required; \<open>regex\<close> defaults to \<open>False\<close> and \<open>case_sensitive\<close> to \<open>True\<close>; unknown
  keys are ignored. A \<open>ValueError\<close> from the validator is reported as \<open>ValidationError\<close>.
\<close>

definition required_field ::
  "(string \<times> pyval) list \<Rightarrow> string \<Rightarrow> (pyval \<Rightarrow> error + 'a) \<Rightarrow> error + 'a" where
  "required_field kwargs k validate =
     (case map_of kwargs k of None \<Rightarrow> Inl ValidationError | Some v \<Rightarrow> validate v)"

definition default_field ::
  "(string \<times> pyval) list \<Rightarrow> string \<Rightarrow> 'a \<Rightarrow> (pyval \<Rightarrow> error + 'a) \<Rightarrow> error + 'a" where
  "default_field kwargs k dflt validate =
     (case map_of kwargs k of None \<Rightarrow> Inr dflt | Some v \<Rightarrow> validate v)"

definition ReplaceValueRule_init ::
  "python \<Rightarrow> (string \<times> pyval) list \<Rightarrow> error + ReplaceValueRule" where
  "ReplaceValueRule_init py kwargs =
     rbind (required_field kwargs ''search''
              (\<lambda>v. rbind (validate_str v)
                 (\<lambda>s. case validate_search py s [] of
                         Inl e \<Rightarrow> Inl ValidationError
                       | Inr s' \<Rightarrow> Inr s')))
       (\<lambda>s. rbind (required_field kwargs ''replace'' validate_str)
          (\<lambda>r. rbind (default_field kwargs ''regex'' False validate_bool)
             (\<lambda>x. rbind (default_field kwargs ''case_sensitive'' True validate_bool)
                (\<lambda>c. Inr \<lparr>search = s, replace = r, regex = x, case_sensitive = c\<rparr>))))"

record HeaderRules =
  add :: "(string \<times> string) list option"
  remove :: "string list option"
  replace_name :: "(string \<times> string) list option"
  replace_value :: "(string \<times> pyval) list option"

text \<open>
  The field types of \<open>HeaderRules\<close>. An entry of \<open>replace_value\<close> has the type
  \<open>Union[ReplaceValueRule, Dict[str, Any]]\<close>: an instance of \<open>ReplaceValueRule\<close> is kept as
  it is, and a \<open>dict\<close> is kept as a \<open>dict\<close>, since it is already a value of the second
  member of the union and pydantic prefers the member that needs no conversion. What is
  neither is refused. A field that is absent or \<open>None\<close> is \<open>None\<close>.
\<close>

fun validate_dict_str_str :: "pyval \<Rightarrow> error + (string \<times> string) list" where
  "validate_dict_str_str (PDict d) =
     map_r (\<lambda>(k, v). rbind (validate_str v) (\<lambda>s. Inr (k, s))) d"
| "validate_dict_str_str v = Inl ValidationError"

fun validate_list_str :: "pyval \<Rightarrow> error + string list" where
  "validate_list_str (PList xs) = map_r validate_str xs"
| "validate_list_str v = Inl ValidationError"

fun validate_rule_or_dict :: "pyval \<Rightarrow> error + pyval" where
  "validate_rule_or_dict (PRule r) = Inr (PRule r)"
| "validate_rule_or_dict (PDict d) = Inr (PDict d)"
| "validate_rule_or_dict v = Inl ValidationError"

fun validate_dict_str_rule :: "pyval \<Rightarrow> error + (string \<times> pyval) list" where
  "validate_dict_str_rule (PDict d) =
     map_r (\<lambda>(k, v). rbind (validate_rule_or_dict v) (\<lambda>r. Inr (k, r))) d"
| "validate_dict_str_rule v = Inl ValidationError"

definition optional_field ::
  "(string \<times> pyval) list \<Rightarrow> string \<Rightarrow> (pyval \<Rightarrow> error + 'a) \<Rightarrow> error + 'a option" where
  "optional_field kwargs k validate =
     (case map_of kwargs k of
        None \<Rightarrow> Inr None
      | Some PNone \<Rightarrow> Inr None
      | Some v \<Rightarrow> rbind (validate v) (\<lambda>x. Inr (Some x)))"

definition HeaderRules_init :: "(string \<times> pyval) list \<Rightarrow> error + HeaderRules" where
  "HeaderRules_init kwargs =
     rbind (optional_field kwargs ''add'' validate_dict_str_str)
       (\<lambda>a. rbind (optional_field kwargs ''remove'' validate_list_str)
          (\<lambda>r. rbind (optional_field kwargs ''replace_name'' validate_dict_str_str)
             (\<lambda>n. rbind (optional_field kwargs ''replace_value'' validate_dict_str_rule)
                (\<lambda>v. Inr \<lparr>add = a, remove = r, replace_name = n, replace_value = v\<rparr>))))"

text \<open>\<open>HeaderRules.is_empty\<close>: no field is truthy.\<close>

definition is_empty :: "HeaderRules \<Rightarrow> bool" where
  "is_empty hr =
     (\<not> (add hr \<noteq> None \<and> add hr \<noteq> Some []
         \<or> remove hr \<noteq> None \<and> remove hr \<noteq> Some []
         \<or> replace_name hr \<noteq> None \<and> replace_name hr \<noteq> Some []
         \<or> replace_value hr \<noteq> None \<and> replace_value hr \<noteq> Some []))"


subsection \<open>Applying the rules\<close>

text \<open>
  \<open>_apply_replace_value(original, rule)\<close>. The regex branch catches \<open>re.error\<close>, and
  nothing else, and gives back the original value; the case-insensitive literal branch
  compiles and substitutes outside any \<open>try\<close>.
\<close>

definition apply_replace_value ::
  "python \<Rightarrow> string \<Rightarrow> ReplaceValueRule \<Rightarrow> error + string" where
  "apply_replace_value py original rule =
     (if regex rule then
        (case re_sub py (search rule) (replace rule) original (\<not> case_sensitive rule) of
           Inl ReError \<Rightarrow> Inr original
         | Inl e \<Rightarrow> Inl e
         | Inr v \<Rightarrow> Inr v)
      else if case_sensitive rule then
        Inr (str_replace original (search rule) (replace rule))
      else
        (if compiles py (escape py (search rule)) True then
           pattern_sub py (escape py (search rule)) True (replace rule) original
         else Inl ReError))"

text \<open>
  The four passes of \<open>apply_header_rules\<close>, one step each. \<open>result\<close> is the working copy of
  the headers.

  Step 1, for one name of \<open>remove\<close>: collect the keys that match without regard to case,
  then delete each.
\<close>

definition remove_header ::
  "python \<Rightarrow> (string \<times> string) list \<Rightarrow> string \<Rightarrow> (string \<times> string) list" where
  "remove_header py result key =
     (let keys_to_remove =
            filter (\<lambda>k. str_lower py k = str_lower py key) (map fst result)
      in foldl (\<lambda>r k. AList.delete k r) result keys_to_remove)"

text \<open>
  Step 2, for one pair of \<open>replace_name\<close>: the first header that matches is popped and its
  value stored under the new name; the loop over the keys then breaks.
\<close>

definition rename_header ::
  "python \<Rightarrow> (string \<times> string) list \<Rightarrow> string \<times> string \<Rightarrow> (string \<times> string) list" where
  "rename_header py result p =
     (case p of (old_name, new_name) \<Rightarrow>
        (case find (\<lambda>(key, value). str_lower py key = str_lower py old_name) result of
           None \<Rightarrow> result
         | Some (key, value) \<Rightarrow> AList.update new_name value (AList.delete key result)))"

text \<open>
  Step 3, for one pair of \<open>replace_value\<close>: at the first header that matches, a \<open>dict\<close>
  entry is turned into a \<open>ReplaceValueRule\<close> (this call is not inside a \<open>try\<close>), the value
  is rewritten and stored back. An entry is a \<open>dict\<close> or a \<open>ReplaceValueRule\<close> after
  parsing; anything else would have no attribute \<open>regex\<close>.
\<close>

definition replace_header_value ::
  "python \<Rightarrow> (string \<times> string) list \<Rightarrow> string \<times> pyval \<Rightarrow> error + (string \<times> string) list" where
  "replace_header_value py result p =
     (case p of (header_name, value_rule) \<Rightarrow>
        (case find (\<lambda>(key, value). str_lower py key = str_lower py header_name) result of
           None \<Rightarrow> Inr result
         | Some (key, original_value) \<Rightarrow>
             rbind (case value_rule of
                      PDict d \<Rightarrow> ReplaceValueRule_init py d
                    | PRule r \<Rightarrow> Inr r
                    | _ \<Rightarrow> Inl AttributeError)
               (\<lambda>rule. rbind (apply_replace_value py original_value rule)
                  (\<lambda>new_value. Inr (AList.update key new_value result)))))"

text \<open>Step 4, for one pair of \<open>add\<close>: stored only when the exact name is not yet a key.\<close>

definition add_header ::
  "(string \<times> string) list \<Rightarrow> string \<times> string \<Rightarrow> (string \<times> string) list" where
  "add_header result p =
     (case p of (key, value) \<Rightarrow>
        if key \<in> set (map fst result) then result else AList.update key value result)"

text \<open>
  Parsing inside \<open>apply_header_rules\<close>: a \<open>dict\<close> with none of the four keys is the legacy
  form and becomes \<open>HeaderRules(add=rules)\<close>; any other \<open>dict\<close> is \<open>HeaderRules(**rules)\<close>;
  what is not a \<open>dict\<close> gives the empty \<open>HeaderRules()\<close>.
\<close>

definition structural_keys :: "string list" where
  "structural_keys = [''add'', ''remove'', ''replace_name'', ''replace_value'']"

definition parse_rules :: "pyval \<Rightarrow> error + HeaderRules" where
  "parse_rules rules =
     (case rules of
        PDict items \<Rightarrow>
          if \<not> list_ex (\<lambda>key. key \<in> set (map fst items)) structural_keys
          then HeaderRules_init [(''add'', rules)]
          else HeaderRules_init items
      | _ \<Rightarrow> Inr \<lparr>add = None, remove = None, replace_name = None, replace_value = None\<rparr>)"

definition option_items :: "'a list option \<Rightarrow> 'a list" where
  "option_items x = (case x of None \<Rightarrow> [] | Some xs \<Rightarrow> xs)"

definition run_rules ::
  "python \<Rightarrow> HeaderRules \<Rightarrow> (string \<times> string) list \<Rightarrow> error + (string \<times> string) list" where
  "run_rules py header_rules headers =
     (let result = headers;
          result = foldl (remove_header py) result (option_items (remove header_rules));
          result = foldl (rename_header py) result
                     (option_items (replace_name header_rules))
      in rbind (fold_r (replace_header_value py) result
                  (option_items (replace_value header_rules)))
           (\<lambda>result. Inr (foldl add_header result (option_items (add header_rules)))))"

text \<open>
  \<open>apply_header_rules(headers, rules)\<close>. Only the parsing is inside the \<open>try\<close>, whose
  handler returns the original headers.
\<close>

definition apply_header_rules ::
  "python \<Rightarrow> (string \<times> string) list \<Rightarrow> pyval \<Rightarrow> error + (string \<times> string) list" where
  "apply_header_rules py headers rules =
     (if \<not> truthy rules then Inr headers
      else
        (case parse_rules rules of
           Inl e \<Rightarrow> Inr headers
         | Inr header_rules \<Rightarrow>
             if is_empty header_rules then Inr headers
             else run_rules py header_rules headers))"




text \<open>
  A small instance of the library for the examples: a pattern compiles when its square
  brackets are balanced, substitution treats the pattern as a literal, and lower-casing
  is that of the ASCII letters.
\<close>

fun brackets_balanced :: "nat \<Rightarrow> string \<Rightarrow> bool" where
  "brackets_balanced n [] = (n = 0)"
| "brackets_balanced n (c # cs) =
     (if c = CHR ''['' then brackets_balanced (Suc n) cs
      else if c = CHR '']'' then (n > 0 \<and> brackets_balanced (n - 1) cs)
      else brackets_balanced n cs)"

definition example_python :: python where
  "example_python =
     \<lparr>compiles = (\<lambda>p i. brackets_balanced 0 p),
      pattern_sub = (\<lambda>p i repl s. Inr (str_replace s p repl)),
      escape = (\<lambda>s. s),
      str_lower = ascii_lower\<rparr>"

section \<open>Model cache (src/services/cache/model_cache.py)\<close>

subsection \<open>Entities\<close>

text \<open>
  The ORM classes \<open>Provider\<close>, \<open>Model\<close> and \<open>GlobalModel\<close>, with the attributes that the
  module reads or writes. An attribute holds a Python value, since \<open>_dict_to_model\<close> and
  \<open>_dict_to_global_model\<close> store whatever the cached mapping holds.
\<close>

record Provider =
  p_id :: pyval
  p_is_active :: pyval

record Model =
  m_id :: pyval
  m_provider_id :: pyval
  m_global_model_id :: pyval
  m_provider_model_name :: pyval
  m_provider_model_aliases :: pyval
  m_is_active :: pyval
  m_is_available :: pyval
  m_price_per_request :: pyval
  m_tiered_pricing :: pyval
  m_supports_vision :: pyval
  m_supports_function_calling :: pyval
  m_supports_streaming :: pyval
  m_supports_extended_thinking :: pyval
  m_supports_image_generation :: pyval
  m_config :: pyval

record GlobalModel =
  gm_id :: pyval
  gm_name :: pyval
  gm_display_name :: pyval
  gm_default_supports_vision :: pyval
  gm_default_supports_function_calling :: pyval
  gm_default_supports_streaming :: pyval
  gm_default_supports_extended_thinking :: pyval
  gm_default_supports_image_generation :: pyval
  gm_supported_capabilities :: pyval
  gm_is_active :: pyval
  gm_description :: pyval

subsection \<open>What the module takes from outside\<close>

text \<open>
  The session \<open>db\<close> is the three tables, in the order in which the datastore returns
  their rows, and whether it supports the JSONB containment operator. \<open>CACHE_TTL\<close> is
  \<open>CacheTTL.MODEL\<close>, \<open>py_float\<close> is the built-in \<open>float\<close> and \<open>str_strip\<close> is
  \<open>str.strip\<close>; the three are parameters.
\<close>

record session =
  providers :: "Provider list"
  models :: "Model list"
  global_models :: "GlobalModel list"
  jsonb_supported :: bool
  CACHE_TTL :: nat
  py_float :: "pyval \<Rightarrow> error + pyval"
  str_strip :: "string \<Rightarrow> string"

text \<open>
  The queries that reach the datastore, the cache operations and the metrics are recorded
  in the order in which they happen. Logging and the measured duration are left out.
\<close>

datatype query =
    ModelById string
  | GlobalModelById string
  | ModelByProviderAndGlobalModel string string
  | GlobalModelByName string
  | JoinedRowsByNameOrAlias string
  | JoinedRowsActive
  | ActiveGlobalModelByName string

datatype effect =
    CacheGet string
  | CacheSet string pyval nat
  | Query query
  | ResolutionTotal string bool
  | ResolutionDuration string
  | ConflictTotal

record world =
  cache :: "string \<rightharpoonup> pyval"
  effects :: "effect list"

definition emit :: "effect \<Rightarrow> world \<Rightarrow> world" where
  "emit e w = w\<lparr>effects := effects w @ [e]\<rparr>"

text \<open>
  Modelled from the spec: \<open>CacheService\<close> (src/core/cache_service.py is not part of the
  sources). The spec gives the contract \<open>get(key) -> value | absent\<close> and
  \<open>set(key, value, ttlSeconds)\<close>. The time to live is recorded with the write; expiry is
  not modelled.
\<close>

definition CacheService_get :: "world \<Rightarrow> string \<Rightarrow> pyval option \<times> world" where
  "CacheService_get w key = (cache w key, emit (CacheGet key) w)"

definition CacheService_set :: "world \<Rightarrow> string \<Rightarrow> pyval \<Rightarrow> nat \<Rightarrow> world" where
  "CacheService_set w key v ttl_seconds =
     emit (CacheSet key v ttl_seconds) (w\<lparr>cache := (cache w)(key \<mapsto> v)\<rparr>)"

text \<open>\<open>if cached_data:\<close> holds for a value that is present and truthy.\<close>

definition cache_hit_value :: "pyval option \<Rightarrow> bool" where
  "cache_hit_value cached_data = (case cached_data of None \<Rightarrow> False | Some v \<Rightarrow> truthy v)"

subsection \<open>Snapshots\<close>

text \<open>\<open>d[k]\<close> on a cached value: \<open>KeyError\<close> on a mapping without the key, \<open>TypeError\<close> on
  what is not a mapping.\<close>

definition subscript :: "pyval \<Rightarrow> string \<Rightarrow> error + pyval" where
  "subscript v k =
     (case v of
        PDict d \<Rightarrow> (case map_of d k of None \<Rightarrow> Inl KeyError | Some x \<Rightarrow> Inr x)
      | _ \<Rightarrow> Inl TypeError)"

text \<open>\<open>d.get(k, default)\<close> on a cached value; only reached after a subscript succeeded.\<close>

definition get_or :: "pyval \<Rightarrow> string \<Rightarrow> pyval \<Rightarrow> error + pyval" where
  "get_or v k dflt =
     (case v of
        PDict d \<Rightarrow> Inr (dict_get_default d k dflt)
      | _ \<Rightarrow> Inl AttributeError)"

definition model_to_dict :: "session \<Rightarrow> Model \<Rightarrow> error + pyval" where
  "model_to_dict db model =
     rbind (if truthy (m_price_per_request model) then py_float db (m_price_per_request model)
            else Inr PNone)
       (\<lambda>price. Inr (PDict
          [(''id'', m_id model),
           (''provider_id'', m_provider_id model),
           (''global_model_id'', m_global_model_id model),
           (''provider_model_name'', m_provider_model_name model),
           (''provider_model_aliases'', m_provider_model_aliases model),
           (''is_active'', m_is_active model),
           (''is_available'', m_is_available model),
           (''price_per_request'', price),
           (''tiered_pricing'', m_tiered_pricing model),
           (''supports_vision'', m_supports_vision model),
           (''supports_function_calling'', m_supports_function_calling model),
           (''supports_streaming'', m_supports_streaming model),
           (''supports_extended_thinking'', m_supports_extended_thinking model),
           (''supports_image_generation'', m_supports_image_generation model),
           (''config'', m_config model)]))"

definition dict_to_model :: "pyval \<Rightarrow> error + Model" where
  "dict_to_model model_dict =
     rbind (subscript model_dict ''id'') (\<lambda>i.
     rbind (subscript model_dict ''provider_id'') (\<lambda>p.
     rbind (subscript model_dict ''global_model_id'') (\<lambda>g.
     rbind (subscript model_dict ''provider_model_name'') (\<lambda>n.
     rbind (get_or model_dict ''provider_model_aliases'' PNone) (\<lambda>al.
     rbind (subscript model_dict ''is_active'') (\<lambda>a.
     rbind (get_or model_dict ''is_available'' (PBool True)) (\<lambda>av.
     rbind (get_or model_dict ''price_per_request'' PNone) (\<lambda>pr.
     rbind (get_or model_dict ''tiered_pricing'' PNone) (\<lambda>tp.
     rbind (get_or model_dict ''supports_vision'' PNone) (\<lambda>sv.
     rbind (get_or model_dict ''supports_function_calling'' PNone) (\<lambda>sf.
     rbind (get_or model_dict ''supports_streaming'' PNone) (\<lambda>ss.
     rbind (get_or model_dict ''supports_extended_thinking'' PNone) (\<lambda>se.
     rbind (get_or model_dict ''supports_image_generation'' PNone) (\<lambda>si.
     rbind (get_or model_dict ''config'' PNone) (\<lambda>c.
       Inr \<lparr>m_id = i, m_provider_id = p, m_global_model_id = g,
            m_provider_model_name = n, m_provider_model_aliases = al, m_is_active = a,
            m_is_available = av, m_price_per_request = pr, m_tiered_pricing = tp,
            m_supports_vision = sv, m_supports_function_calling = sf,
            m_supports_streaming = ss, m_supports_extended_thinking = se,
            m_supports_image_generation = si, m_config = c\<rparr>)))))))))))))))"

definition global_model_to_dict :: "GlobalModel \<Rightarrow> pyval" where
  "global_model_to_dict global_model =
     PDict
       [(''id'', gm_id global_model),
        (''name'', gm_name global_model),
        (''display_name'', gm_display_name global_model),
        (''default_supports_vision'', gm_default_supports_vision global_model),
        (''default_supports_function_calling'',
           gm_default_supports_function_calling global_model),
        (''default_supports_streaming'', gm_default_supports_streaming global_model),
        (''default_supports_extended_thinking'',
           gm_default_supports_extended_thinking global_model),
        (''default_supports_image_generation'',
           gm_default_supports_image_generation global_model),
        (''supported_capabilities'', gm_supported_capabilities global_model),
        (''is_active'', gm_is_active global_model),
        (''description'', gm_description global_model)]"

text \<open>
  \<open>_dict_to_global_model\<close>: \<open>id\<close> and \<open>name\<close> are subscripted, the other nine fields are
  read with \<open>get\<close> and a default; \<open>supported_capabilities\<close> is \<open>get(...) or []\<close>.
\<close>

definition dict_to_global_model :: "pyval \<Rightarrow> error + GlobalModel" where
  "dict_to_global_model global_model_dict =
     rbind (subscript global_model_dict ''id'') (\<lambda>i.
     rbind (subscript global_model_dict ''name'') (\<lambda>n.
     rbind (get_or global_model_dict ''display_name'' PNone) (\<lambda>dn.
     rbind (get_or global_model_dict ''default_supports_vision'' (PBool False)) (\<lambda>sv.
     rbind (get_or global_model_dict ''default_supports_function_calling'' (PBool False)) (\<lambda>sf.
     rbind (get_or global_model_dict ''default_supports_streaming'' (PBool True)) (\<lambda>ss.
     rbind (get_or global_model_dict ''default_supports_extended_thinking'' (PBool False)) (\<lambda>se.
     rbind (get_or global_model_dict ''default_supports_image_generation'' (PBool False)) (\<lambda>si.
     rbind (get_or global_model_dict ''supported_capabilities'' PNone) (\<lambda>sc.
     rbind (get_or global_model_dict ''is_active'' (PBool True)) (\<lambda>a.
     rbind (get_or global_model_dict ''description'' PNone) (\<lambda>d.
       Inr \<lparr>gm_id = i, gm_name = n, gm_display_name = dn,
            gm_default_supports_vision = sv, gm_default_supports_function_calling = sf,
            gm_default_supports_streaming = ss, gm_default_supports_extended_thinking = se,
            gm_default_supports_image_generation = si,
            gm_supported_capabilities = (if truthy sc then sc else PList []),
            gm_is_active = a, gm_description = d\<rparr>)))))))))))"

text \<open>The fields that \<open>_dict_to_global_model\<close> reads from a snapshot.\<close>

definition global_model_fields :: "string list" where
  "global_model_fields =
     [''id'', ''name'', ''display_name'', ''default_supports_vision'',
      ''default_supports_function_calling'', ''default_supports_streaming'',
      ''default_supports_extended_thinking'', ''default_supports_image_generation'',
      ''supported_capabilities'', ''is_active'', ''description'']"

subsection \<open>The four point lookups\<close>

text \<open>
  Each is: read the cache; on a truthy value rebuild the object from it; otherwise query
  the datastore and, when a row is found, write its snapshot to the cache. SQL equality
  never holds for \<open>NULL\<close>.
\<close>

definition sql_eq :: "pyval \<Rightarrow> pyval \<Rightarrow> bool" where
  "sql_eq a b = (a \<noteq> PNone \<and> a = b)"

definition cached_or_query ::
  "world \<Rightarrow> string \<Rightarrow> query \<Rightarrow> (pyval \<Rightarrow> error + 'a) \<Rightarrow> 'a option \<Rightarrow> ('a \<Rightarrow> error + pyval)
     \<Rightarrow> nat \<Rightarrow> (error + 'a option) \<times> world" where
  "cached_or_query w cache_key q rebuild row to_dict ttl =
     (case CacheService_get w cache_key of (cached_data, w1) \<Rightarrow>
        if cache_hit_value cached_data then
          (case cached_data of
             Some v \<Rightarrow> (rbind (rebuild v) (\<lambda>x. Inr (Some x)), w1)
           | None \<Rightarrow> (Inr None, w1))
        else
          (let w2 = emit (Query q) w1
           in case row of
                None \<Rightarrow> (Inr None, w2)
              | Some x \<Rightarrow>
                  (case to_dict x of
                     Inl e \<Rightarrow> (Inl e, w2)
                   | Inr d \<Rightarrow> (Inr (Some x), CacheService_set w2 cache_key d ttl))))"

text \<open>The four datastore queries, each ended by \<open>first()\<close>.\<close>

definition query_model_by_id :: "session \<Rightarrow> string \<Rightarrow> Model option" where
  "query_model_by_id db model_id = find (\<lambda>m. sql_eq (m_id m) (PStr model_id)) (models db)"

definition query_global_model_by_id :: "session \<Rightarrow> string \<Rightarrow> GlobalModel option" where
  "query_global_model_by_id db global_model_id =
     find (\<lambda>g. sql_eq (gm_id g) (PStr global_model_id)) (global_models db)"

definition query_model_by_provider_and_global_model ::
  "session \<Rightarrow> string \<Rightarrow> string \<Rightarrow> Model option" where
  "query_model_by_provider_and_global_model db provider_id global_model_id =
     find (\<lambda>m. sql_eq (m_provider_id m) (PStr provider_id)
               \<and> sql_eq (m_global_model_id m) (PStr global_model_id)
               \<and> sql_eq (m_is_active m) (PBool True)) (models db)"

definition query_global_model_by_name :: "session \<Rightarrow> string \<Rightarrow> GlobalModel option" where
  "query_global_model_by_name db name =
     find (\<lambda>g. sql_eq (gm_name g) (PStr name)) (global_models db)"

definition get_model_by_id ::
  "session \<Rightarrow> world \<Rightarrow> string \<Rightarrow> (error + Model option) \<times> world" where
  "get_model_by_id db w model_id =
     cached_or_query w (''model:id:'' @ model_id) (ModelById model_id) dict_to_model
       (query_model_by_id db model_id) (model_to_dict db) (CACHE_TTL db)"

definition get_global_model_by_id ::
  "session \<Rightarrow> world \<Rightarrow> string \<Rightarrow> (error + GlobalModel option) \<times> world" where
  "get_global_model_by_id db w global_model_id =
     cached_or_query w (''global_model:id:'' @ global_model_id) (GlobalModelById global_model_id)
       dict_to_global_model (query_global_model_by_id db global_model_id)
       (\<lambda>g. Inr (global_model_to_dict g)) (CACHE_TTL db)"

definition get_model_by_provider_and_global_model ::
  "session \<Rightarrow> world \<Rightarrow> string \<Rightarrow> string \<Rightarrow> (error + Model option) \<times> world" where
  "get_model_by_provider_and_global_model db w provider_id global_model_id =
     cached_or_query w
       (''model:provider_global:'' @ provider_id @ '':'' @ global_model_id)
       (ModelByProviderAndGlobalModel provider_id global_model_id)
       dict_to_model (query_model_by_provider_and_global_model db provider_id global_model_id)
       (model_to_dict db) (CACHE_TTL db)"

definition get_global_model_by_name ::
  "session \<Rightarrow> world \<Rightarrow> string \<Rightarrow> (error + GlobalModel option) \<times> world" where
  "get_global_model_by_name db w name =
     cached_or_query w (''global_model:name:'' @ name) (GlobalModelByName name)
       dict_to_global_model (query_global_model_by_name db name)
       (\<lambda>g. Inr (global_model_to_dict g)) (CACHE_TTL db)"

subsection \<open>Resolution by name or alias\<close>

text \<open>
  The joined query: active providers, models and global models, joined on the two foreign
  keys. With JSONB support the rows are filtered in the datastore: the provider-side name
  equals the name, or the alias array contains an object whose \<open>name\<close> is the name.
\<close>

definition joined_active_rows :: "session \<Rightarrow> (Model \<times> GlobalModel) list" where
  "joined_active_rows db =
     [(m, g).
        m \<leftarrow> models db,
        p \<leftarrow> providers db,
        sql_eq (m_provider_id m) (p_id p),
        g \<leftarrow> global_models db,
        sql_eq (m_global_model_id m) (gm_id g),
        sql_eq (p_is_active p) (PBool True),
        sql_eq (m_is_active m) (PBool True),
        sql_eq (gm_is_active g) (PBool True)]"

definition jsonb_contains_name :: "pyval \<Rightarrow> string \<Rightarrow> bool" where
  "jsonb_contains_name aliases name =
     (case aliases of
        PList xs \<Rightarrow>
          list_ex (\<lambda>x. case x of PDict d \<Rightarrow> map_of d ''name'' = Some (PStr name) | _ \<Rightarrow> False) xs
      | _ \<Rightarrow> False)"

definition select_rows :: "session \<Rightarrow> string \<Rightarrow> (Model \<times> GlobalModel) list" where
  "select_rows db normalized_name =
     (if jsonb_supported db then
        filter (\<lambda>(m, g). sql_eq (m_provider_model_name m) (PStr normalized_name)
                    \<or> jsonb_contains_name (m_provider_model_aliases m) normalized_name)
          (joined_active_rows db)
      else joined_active_rows db)"

text \<open>
  The first query is always sent; without JSONB support it raises \<open>OperationalError\<close> or
  \<open>ProgrammingError\<close> and the second query, for all active rows, follows.
\<close>

definition query_rows :: "session \<Rightarrow> world \<Rightarrow> string \<Rightarrow> (Model \<times> GlobalModel) list \<times> world" where
  "query_rows db w normalized_name =
     (let w1 = emit (Query (JoinedRowsByNameOrAlias normalized_name)) w
      in (select_rows db normalized_name,
          if jsonb_supported db then w1 else emit (Query JoinedRowsActive) w1))"

text \<open>
  \<open>for alias_entry in model.provider_model_aliases\<close>: what the loop iterates over. A list
  gives its elements, a mapping its keys, a string its characters, a rule object its fields
  as pairs; the other values are not iterable.
\<close>

fun iter_values :: "pyval \<Rightarrow> error + pyval list" where
  "iter_values (PList xs) = Inr xs"
| "iter_values (PDict d) = Inr (map (\<lambda>(k, v). PStr k) d)"
| "iter_values (PStr s) = Inr (map (\<lambda>c. PStr [c]) s)"
| "iter_values (PRule r) =
     Inr [PList [PStr ''search'', PStr (search r)],
          PList [PStr ''replace'', PStr (replace r)],
          PList [PStr ''regex'', PBool (regex r)],
          PList [PStr ''case_sensitive'', PBool (case_sensitive r)]]"
| "iter_values v = Inl TypeError"

text \<open>
  One alias entry: a mapping matches when \<open>alias_entry.get("name", "").strip()\<close> equals the
  name; a name that is not a string has no \<open>strip\<close>. The loop breaks at the first match.
\<close>

definition alias_entry_matches :: "session \<Rightarrow> string \<Rightarrow> pyval \<Rightarrow> error + bool" where
  "alias_entry_matches db normalized_name alias_entry =
     (case alias_entry of
        PDict d \<Rightarrow>
          (case dict_get_default d ''name'' (PStr []) of
             PStr s \<Rightarrow> Inr (str_strip db s = normalized_name)
           | _ \<Rightarrow> Inl AttributeError)
      | _ \<Rightarrow> Inr False)"

fun any_alias_matches :: "session \<Rightarrow> string \<Rightarrow> pyval list \<Rightarrow> error + bool" where
  "any_alias_matches db normalized_name [] = Inr False"
| "any_alias_matches db normalized_name (alias_entry # rest) =
     rbind (alias_entry_matches db normalized_name alias_entry)
       (\<lambda>hit. if hit then Inr True else any_alias_matches db normalized_name rest)"

text \<open>
  The alias check of one model: \<open>if model.provider_model_aliases:\<close> and the loop over the
  entries. The result says whether an entry matched.
\<close>

definition alias_matches :: "session \<Rightarrow> string \<Rightarrow> Model \<Rightarrow> error + bool" where
  "alias_matches db normalized_name model =
     (if truthy (m_provider_model_aliases model)
      then rbind (iter_values (m_provider_model_aliases model))
             (any_alias_matches db normalized_name)
      else Inr False)"

text \<open>
  A dictionary key must be hashable: lists, mappings and rule objects are not. The log
  line of a recorded match formats \<open>model.id[:8]\<close>, which needs a value that can be sliced:
  a string or a list.
\<close>

fun hashable :: "pyval \<Rightarrow> bool" where
  "hashable (PList xs) = False"
| "hashable (PDict d) = False"
| "hashable (PRule r) = False"
| "hashable v = True"

fun sliceable :: "pyval \<Rightarrow> bool" where
  "sliceable (PStr s) = True"
| "sliceable (PList xs) = True"
| "sliceable v = False"

text \<open>
  The body of the loop over the rows. \<open>matched_models_dict\<close> maps
  \<open>(model.id, gm.id)\<close> to \<open>(gm, match_type, priority)\<close>, in insertion order. The key is
  hashed at the first store or membership test, after the alias loop. Each of the two
  stores is followed by \<open>logger.debug\<close> with an f-string that is built at once and raises
  \<open>TypeError\<close> when \<open>model.id\<close> cannot be sliced.
\<close>

type_synonym matched = "((pyval \<times> pyval) \<times> (GlobalModel \<times> string \<times> nat)) list"

definition match_row ::
  "session \<Rightarrow> string \<Rightarrow> matched \<Rightarrow> Model \<times> GlobalModel \<Rightarrow> error + matched" where
  "match_row db normalized_name matched_models_dict row =
     (case row of (model, gm) \<Rightarrow>
        (let key = (m_id model, gm_id gm)
         in rbind (alias_matches db normalized_name model)
              (\<lambda>alias_hit.
                 if \<not> (hashable (m_id model) \<and> hashable (gm_id gm)) then Inl TypeError
                 else
                   rbind (if alias_hit
                          then (if sliceable (m_id model)
                                then Inr (AList.update key (gm, ''alias'', 0) matched_models_dict)
                                else Inl TypeError)
                          else Inr matched_models_dict)
                     (\<lambda>d. if (case map_of d key of
                                 None \<Rightarrow> True
                               | Some (g, match_type, priority) \<Rightarrow> match_type \<noteq> ''alias'')
                           then
                             (if m_provider_model_name model = PStr normalized_name
                              then (if map_of d key = None
                                    then (if sliceable (m_id model)
                                          then Inr (AList.update key
                                                      (gm, ''provider_model_name'', 1) d)
                                          else Inl TypeError)
                                    else Inr d)
                              else Inr d)
                           else Inr d))))"

text \<open>The loop over the rows of the query, starting from the empty dictionary.\<close>

definition matched_models :: "session \<Rightarrow> string \<Rightarrow> error + matched" where
  "matched_models db normalized_name =
     fold_r (match_row db normalized_name) [] (select_rows db normalized_name)"

text \<open>
  The sort key is \<open>(0 if match_type == "alias" else 1, gm.name)\<close>. Two keys are compared
  as Python compares tuples: by the rank when the ranks differ, else by the names. Names
  are strings, compared by code points; two equal names are not less; any other pair of
  names is reported as \<open>TypeError\<close>, as Python does for \<open>None\<close> and for values of different
  kinds.
\<close>

definition match_sort_key :: "GlobalModel \<times> string \<Rightarrow> nat \<times> pyval" where
  "match_sort_key item = (if snd item = ''alias'' then 0 else 1, gm_name (fst item))"

fun key_less :: "nat \<times> pyval \<Rightarrow> nat \<times> pyval \<Rightarrow> error + bool" where
  "key_less (r1, PStr a) (r2, PStr b) = Inr (if r1 \<noteq> r2 then r1 < r2 else a < b)"
| "key_less (r1, n1) (r2, n2) =
     (if r1 \<noteq> r2 then Inr (r1 < r2) else if n1 = n2 then Inr False else Inl TypeError)"

text \<open>
  \<open>list.sort(key=...)\<close> is stable. It is modelled by a stable insertion sort that uses only
  \<open>key_less\<close>; whenever no comparison raises, every stable sort gives the same list.
\<close>

fun insert_sorted ::
  "GlobalModel \<times> string \<Rightarrow> (GlobalModel \<times> string) list \<Rightarrow> error + (GlobalModel \<times> string) list" where
  "insert_sorted x [] = Inr [x]"
| "insert_sorted x (y # ys) =
     rbind (key_less (match_sort_key y) (match_sort_key x))
       (\<lambda>less. if less then rbind (insert_sorted x ys) (\<lambda>r. Inr (y # r))
               else Inr (x # y # ys))"

fun sort_matches :: "(GlobalModel \<times> string) list \<Rightarrow> error + (GlobalModel \<times> string) list" where
  "sort_matches [] = Inr []"
| "sort_matches (x # xs) = rbind (sort_matches xs) (insert_sorted x)"

text \<open>The \<open>finally\<close> block: the outcome counter and the duration histogram.\<close>

definition record_metrics :: "string \<Rightarrow> bool \<Rightarrow> world \<Rightarrow> world" where
  "record_metrics resolution_method cache_hit w =
     emit (ResolutionDuration resolution_method)
       (emit (ResolutionTotal resolution_method cache_hit) w)"

definition candidates :: "matched \<Rightarrow> (GlobalModel \<times> string) list" where
  "candidates matched_models_dict =
     map (\<lambda>(key, (gm, match_type, priority)). (gm, match_type)) matched_models_dict"

text \<open>
  The conflict check on the sorted list: \<open>unique_models = {gm.id: gm for gm, _ in ...}\<close>.
  With more than one entry and more than one distinct id, the warning joins the names
  with \<open>', '.join\<close>, which raises \<open>TypeError\<close> for a name that is not a string, and the
  conflict counter is incremented.
\<close>

definition unique_models :: "(GlobalModel \<times> string) list \<Rightarrow> (pyval \<times> GlobalModel) list" where
  "unique_models matched_global_models =
     foldl (\<lambda>d item. AList.update (gm_id (fst item)) (fst item) d) [] matched_global_models"

definition conflict :: "(GlobalModel \<times> string) list \<Rightarrow> bool" where
  "conflict matched_global_models =
     (length matched_global_models > 1 \<and> length (unique_models matched_global_models) > 1)"

text \<open>
  Steps 2 to 4 of \<open>resolve_global_model_by_name_or_alias\<close>, entered after a cache miss:
  the joined query and the matching, then the direct match on \<open>GlobalModel.name\<close>, then the
  negative result. An exception before the sort has finished leaves \<open>resolution_method\<close>
  at \<open>"not_found"\<close>.
\<close>

definition resolve_from_datastore ::
  "session \<Rightarrow> world \<Rightarrow> string \<Rightarrow> (error + GlobalModel option) \<times> world" where
  "resolve_from_datastore db w normalized_name =
     (let cache_key = ''global_model:resolve:'' @ normalized_name
      in case query_rows db w normalized_name of (models_with_global, w1) \<Rightarrow>
        (case fold_r (match_row db normalized_name) [] models_with_global of
           Inl e \<Rightarrow> (Inl e, record_metrics ''not_found'' False w1)
         | Inr matched_models_dict \<Rightarrow>
             if matched_models_dict \<noteq> [] then
               (case sort_matches (candidates matched_models_dict) of
                  Inl e \<Rightarrow> (Inl e, record_metrics ''not_found'' False w1)
                | Inr [] \<Rightarrow> (Inl IndexError, record_metrics ''not_found'' False w1)
                | Inr ((result_global_model, resolution_method) # rest) \<Rightarrow>
                    (let matched_global_models = (result_global_model, resolution_method) # rest
                     in if conflict matched_global_models
                           \<and> \<not> list_all (\<lambda>(i, gm). is_str (gm_name gm))
                                 (unique_models matched_global_models)
                        then (Inl TypeError, record_metrics resolution_method False w1)
                        else
                          (let w2 = (if conflict matched_global_models
                                     then emit ConflictTotal w1 else w1);
                               w3 = CacheService_set w2 cache_key
                                      (global_model_to_dict result_global_model) (CACHE_TTL db)
                           in (Inr (Some result_global_model),
                               record_metrics resolution_method False w3))))
             else
               (let w2 = emit (Query (ActiveGlobalModelByName normalized_name)) w1
                in case find (\<lambda>g. sql_eq (gm_name g) (PStr normalized_name)
                                  \<and> sql_eq (gm_is_active g) (PBool True)) (global_models db) of
                     Some global_model \<Rightarrow>
                       (Inr (Some global_model),
                        record_metrics ''direct_match'' False
                          (CacheService_set w2 cache_key (global_model_to_dict global_model)
                             (CACHE_TTL db)))
                   | None \<Rightarrow>
                       (Inr None,
                        record_metrics ''not_found'' False
                          (CacheService_set w2 cache_key (PStr ''NOT_FOUND'') (CACHE_TTL db))))))"

text \<open>A cached mapping without \<open>supported_capabilities\<close> is taken for an old snapshot.\<close>

definition stale_snapshot :: "pyval \<Rightarrow> bool" where
  "stale_snapshot cached_data =
     (case cached_data of
        PDict d \<Rightarrow> ''supported_capabilities'' \<notin> set (map fst d)
      | _ \<Rightarrow> False)"

text \<open>
  \<open>resolve_global_model_by_name_or_alias(db, model_name)\<close>. The empty name returns before
  the \<open>try\<close>, so not even the metrics are recorded.
\<close>

definition resolve_global_model_by_name_or_alias ::
  "session \<Rightarrow> world \<Rightarrow> string \<Rightarrow> (error + GlobalModel option) \<times> world" where
  "resolve_global_model_by_name_or_alias db w model_name =
     (let normalized_name = str_strip db model_name
      in if normalized_name = [] then (Inr None, w)
         else
           (let cache_key = ''global_model:resolve:'' @ normalized_name
            in case CacheService_get w cache_key of (cached_data, w1) \<Rightarrow>
              (case cached_data of
                 None \<Rightarrow> resolve_from_datastore db w1 normalized_name
               | Some v \<Rightarrow>
                   if \<not> truthy v then resolve_from_datastore db w1 normalized_name
                   else if v = PStr ''NOT_FOUND'' then
                     (Inr None, record_metrics ''not_found'' True w1)
                   else if stale_snapshot v then resolve_from_datastore db w1 normalized_name
                   else
                     (rbind (dict_to_global_model v) (\<lambda>g. Inr (Some g)),
                      record_metrics ''direct_match'' True w1))))"

text \<open>
  An instance of \<open>str.strip\<close> for the examples: the ASCII whitespace characters are
  removed at both ends (Python removes the other Unicode spaces as well).
\<close>

definition is_space :: "char \<Rightarrow> bool" where
  "is_space c =
     (c \<in> set [CHR '' '', CHR 0x09, CHR 0x0A, CHR 0x0B, CHR 0x0C, CHR 0x0D,
                CHR 0x1C, CHR 0x1D, CHR 0x1E, CHR 0x1F])"

definition ascii_strip :: "string \<Rightarrow> string" where
  "ascii_strip s = rev (dropWhile is_space (rev (dropWhile is_space s)))"

section \<open>Auxiliary notions and example data\<close>


definition str_key :: "GlobalModel \<times> string \<Rightarrow> nat \<times> string" where
  "str_key item =
     (if snd item = ''alias'' then 0 else 1,
      case gm_name (fst item) of PStr s \<Rightarrow> s | _ \<Rightarrow> [])"

text \<open>
  How a row of the joined query matches a name: by alias when the alias check of its
  model finds an entry with that name, by provider-side name when
  \<open>model.provider_model_name\<close> equals the name. \<open>name_of\<close> reads the name of a global
  model as a string.
\<close>

definition matches_by_alias :: "session \<Rightarrow> string \<Rightarrow> Model \<times> GlobalModel \<Rightarrow> bool" where
  "matches_by_alias db normalized_name row =
     (alias_matches db normalized_name (fst row) = Inr True)"

definition matches_by_name :: "string \<Rightarrow> Model \<times> GlobalModel \<Rightarrow> bool" where
  "matches_by_name normalized_name row =
     (m_provider_model_name (fst row) = PStr normalized_name)"

definition name_of :: "GlobalModel \<Rightarrow> string" where
  "name_of g = (case gm_name g of PStr s \<Rightarrow> s | _ \<Rightarrow> [])"

definition row_key :: "Model \<times> GlobalModel \<Rightarrow> pyval \<times> pyval" where
  "row_key row = (m_id (fst row), gm_id (snd row))"

text \<open>
  What the dictionary of the matching holds after a prefix \<open>seen\<close> of the rows. Every
  entry comes from a row seen, with the key of that row, and is tagged as that row
  matched; every row seen that matches by alias has an entry tagged \<open>alias\<close> under its
  key, and every row seen that matches by provider-side name has an entry under its key.
\<close>

definition tags_sound :: "session \<Rightarrow> string \<Rightarrow> (Model \<times> GlobalModel) list \<Rightarrow> matched \<Rightarrow> bool" where
  "tags_sound db n seen d =
     (\<forall>k g t p. map_of d k = Some (g, t, p) \<longrightarrow>
        (\<exists>m. (m, g) \<in> set seen \<and> row_key (m, g) = k
           \<and> (if t = ''alias'' then matches_by_alias db n (m, g)
               else t = ''provider_model_name'' \<and> matches_by_name n (m, g))))"

definition tags_complete :: "session \<Rightarrow> string \<Rightarrow> (Model \<times> GlobalModel) list \<Rightarrow> matched \<Rightarrow> bool" where
  "tags_complete db n seen d =
     (\<forall>row\<in>set seen.
        (matches_by_alias db n row \<longrightarrow> (\<exists>g. map_of d (row_key row) = Some (g, ''alias'', 0)))
        \<and> (matches_by_name n row \<longrightarrow> map_of d (row_key row) \<noteq> None))"

text \<open>
  A small datastore: two providers; two models that both carry the alias \<open>dup\<close> and point
  to the global models \<open>model-b\<close> and \<open>model-a\<close>; a third model whose provider-side name is
  \<open>dup\<close> and whose global model is \<open>aaa\<close>.
\<close>

definition example_global_model :: "string \<Rightarrow> string \<Rightarrow> GlobalModel" where
  "example_global_model i n =
     \<lparr>gm_id = PStr i, gm_name = PStr n, gm_display_name = PNone,
      gm_default_supports_vision = PBool False,
      gm_default_supports_function_calling = PBool False,
      gm_default_supports_streaming = PBool True,
      gm_default_supports_extended_thinking = PBool False,
      gm_default_supports_image_generation = PBool False,
      gm_supported_capabilities = PList [PStr ''chat''],
      gm_is_active = PBool True, gm_description = PStr ''a model''\<rparr>"

definition example_model :: "string \<Rightarrow> string \<Rightarrow> string \<Rightarrow> string \<Rightarrow> pyval \<Rightarrow> Model" where
  "example_model i p g n aliases =
     \<lparr>m_id = PStr i, m_provider_id = PStr p, m_global_model_id = PStr g,
      m_provider_model_name = PStr n, m_provider_model_aliases = aliases,
      m_is_active = PBool True, m_is_available = PBool True,
      m_price_per_request = PNone, m_tiered_pricing = PNone,
      m_supports_vision = PNone, m_supports_function_calling = PNone,
      m_supports_streaming = PNone, m_supports_extended_thinking = PNone,
      m_supports_image_generation = PNone, m_config = PNone\<rparr>"

definition example_session :: session where
  "example_session =
     \<lparr>providers =
        [\<lparr>p_id = PStr ''p1'', p_is_active = PBool True\<rparr>,
         \<lparr>p_id = PStr ''p2'', p_is_active = PBool True\<rparr>],
      models =
        [example_model ''m2'' ''p2'' ''gb'' ''x2'' (PList [PDict [(''name'', PStr ''dup'')]]),
         example_model ''m1'' ''p1'' ''ga'' ''x1'' (PList [PDict [(''name'', PStr ''dup'')]]),
         example_model ''m3'' ''p1'' ''g0'' ''dup'' PNone],
      global_models =
        [example_global_model ''gb'' ''model-b'',
         example_global_model ''ga'' ''model-a'',
         example_global_model ''g0'' ''aaa''],
      jsonb_supported = True,
      CACHE_TTL = 300,
      py_float = Inr,
      str_strip = ascii_strip\<rparr>"

definition empty_world :: world where
  "empty_world = \<lparr>cache = Map.empty, effects = []\<rparr>"

text \<open>
  A cache that holds, for the name \<open>model-a\<close>, a snapshot with \<open>id\<close>, \<open>name\<close> and
  \<open>supported_capabilities\<close> only.
\<close>

definition partial_snapshot :: "(string \<times> pyval) list" where
  "partial_snapshot =
     [(''id'', PStr ''ga''), (''name'', PStr ''model-a''),
      (''supported_capabilities'', PList [PStr ''chat''])]"

definition partial_snapshot_world :: world where
  "partial_snapshot_world =
     \<lparr>cache = [''global_model:resolve:model-a'' \<mapsto> PDict partial_snapshot], effects = []\<rparr>"

text \<open>The same cache with a snapshot that has no \<open>name\<close>.\<close>

definition nameless_snapshot_world :: world where
  "nameless_snapshot_world =
     \<lparr>cache = [''global_model:resolve:model-a'' \<mapsto>
                 PDict [(''id'', PStr ''ga''),
                        (''supported_capabilities'', PList [PStr ''chat''])]],
      effects = []\<rparr>"

text \<open>
  A cache that holds, for the name \<open>dup\<close>, a snapshot written before
  \<open>supported_capabilities\<close> existed.
\<close>

definition old_snapshot_world :: world where
  "old_snapshot_world =
     \<lparr>cache = [''global_model:resolve:dup'' \<mapsto>
                 PDict [(''id'', PStr ''gb''), (''name'', PStr ''model-b'')]],
      effects = []\<rparr>"

text \<open>A cache that holds, for the name \<open>dup\<close>, the negative sentinel.\<close>

definition not_found_world :: world where
  "not_found_world =
     \<lparr>cache = [''global_model:resolve:dup'' \<mapsto> PStr ''NOT_FOUND''], effects = []\<rparr>"

section \<open>Properties of the usage field extractor\<close>

text \<open>
  C5. When \<open>usage.cache_creation\<close> is a mapping and the sum of its
  \<open>ephemeral_5m_input_tokens\<close> and \<open>ephemeral_1h_input_tokens\<close> (each absent as 0, coerced
  by \<open>int\<close>) is strictly positive, \<open>extract_cache_creation_tokens\<close> returns that sum,
  whatever the flat fields and the legacy field hold.
\<close>

theorem nested_sum_outranks_flat_and_legacy:
  assumes "map_of usage ''cache_creation'' = Some (PDict cc)"
    and "py_int ios (dict_get_default cc ''ephemeral_5m_input_tokens'' (PInt 0)) = Inr a"
    and "py_int ios (dict_get_default cc ''ephemeral_1h_input_tokens'' (PInt 0)) = Inr b"
    and "a + b > 0"
  shows "extract_cache_creation_tokens ios usage = Inr (a + b)"
  using assms by (simp add: extract_cache_creation_tokens_def sum_or_legacy_def)

theorem nested_sum_outranks_flat_and_legacy_witness:
  "extract_cache_creation_tokens decimal_int_of_str
     [(''cache_creation'',
         PDict [(''ephemeral_5m_input_tokens'', PInt 100),
                (''ephemeral_1h_input_tokens'', PInt 200)]),
      (''claude_cache_creation_5_m_tokens'', PInt 999),
      (''claude_cache_creation_1_h_tokens'', PInt 888),
      (''cache_creation_input_tokens'', PInt 777)] = Inr 300"
  using nested_sum_outranks_flat_and_legacy
    [of "[(''cache_creation'',
            PDict [(''ephemeral_5m_input_tokens'', PInt 100),
                   (''ephemeral_1h_input_tokens'', PInt 200)]),
          (''claude_cache_creation_5_m_tokens'', PInt 999),
          (''claude_cache_creation_1_h_tokens'', PInt 888),
          (''cache_creation_input_tokens'', PInt 777)]"
        "[(''ephemeral_5m_input_tokens'', PInt 100), (''ephemeral_1h_input_tokens'', PInt 200)]"
        decimal_int_of_str 100 200]
  by (simp add: dict_get_default_def)

text \<open>
  C6, as stated: when the nested sum is not strictly positive, the value of
  \<open>cache_creation_input_tokens\<close> is returned as it is, whatever integer it holds. It
  fails for a negative legacy value: with an empty \<open>cache_creation\<close> mapping and a legacy
  value of \<open>-5\<close> the nested block returns \<open>0\<close>.
\<close>

theorem nested_zero_legacy_verbatim_counterexample:
  "map_of [(''cache_creation'', PDict []), (''cache_creation_input_tokens'', PInt (- 5))]
       ''cache_creation'' = Some (PDict [])
   \<and> py_int decimal_int_of_str
         (dict_get_default [(''cache_creation'', PDict []),
                            (''cache_creation_input_tokens'', PInt (- 5))]
            ''cache_creation_input_tokens'' (PInt 0)) = Inr (- 5)
   \<and> extract_cache_creation_tokens decimal_int_of_str
         [(''cache_creation'', PDict []), (''cache_creation_input_tokens'', PInt (- 5))]
       = Inr 0
   \<and> extract_cache_creation_tokens decimal_int_of_str
         [(''cache_creation'', PDict []), (''cache_creation_input_tokens'', PInt (- 5))]
       \<noteq> Inr (- 5)"
  by (simp add: extract_cache_creation_tokens_def sum_or_legacy_def legacy_or_zero_def
      dict_get_default_def)

text \<open>
  C6, amended: when \<open>usage.cache_creation\<close> is a mapping whose sum is not strictly
  positive, the result is the legacy field \<open>cache_creation_input_tokens\<close> (absent as 0,
  coerced by \<open>int\<close>) when that is strictly positive, and \<open>0\<close> otherwise; the flat fields
  are not consulted.
\<close>

theorem nested_zero_falls_back_to_positive_legacy:
  assumes "map_of usage ''cache_creation'' = Some (PDict cc)"
    and "py_int ios (dict_get_default cc ''ephemeral_5m_input_tokens'' (PInt 0)) = Inr a"
    and "py_int ios (dict_get_default cc ''ephemeral_1h_input_tokens'' (PInt 0)) = Inr b"
    and "\<not> a + b > 0"
    and "py_int ios (dict_get_default usage ''cache_creation_input_tokens'' (PInt 0)) = Inr l"
  shows "extract_cache_creation_tokens ios usage = Inr (if l > 0 then l else 0)"
  using assms
  by (simp add: extract_cache_creation_tokens_def sum_or_legacy_def legacy_or_zero_def)

theorem nested_zero_falls_back_to_positive_legacy_witness:
  "extract_cache_creation_tokens decimal_int_of_str
     [(''cache_creation'',
         PDict [(''ephemeral_5m_input_tokens'', PInt 0),
                (''ephemeral_1h_input_tokens'', PInt 0)]),
      (''cache_creation_input_tokens'', PInt 549)] = Inr 549"
  using nested_zero_falls_back_to_positive_legacy
    [of "[(''cache_creation'',
            PDict [(''ephemeral_5m_input_tokens'', PInt 0),
                   (''ephemeral_1h_input_tokens'', PInt 0)]),
          (''cache_creation_input_tokens'', PInt 549)]"
        "[(''ephemeral_5m_input_tokens'', PInt 0), (''ephemeral_1h_input_tokens'', PInt 0)]"
        decimal_int_of_str 0 0 549]
  by (simp add: dict_get_default_def)

section \<open>Properties of the header rule engine\<close>

subsection \<open>Association lists and the sequencing of steps\<close>

lemma find_pair_map_of:
  assumes "find (\<lambda>(key, value). f key = c) result = Some (k, v)"
  shows "map_of result k = Some v"
  using assms
proof (induction result)
  case Nil
  then show ?case by simp
next
  case (Cons p ps)
  obtain k' v' where p: "p = (k', v')" by (cases p)
  show ?case
  proof (cases "f k' = c")
    case True
    with Cons.prems p show ?thesis by simp
  next
    case False
    with Cons.prems p have rest: "find (\<lambda>(key, value). f key = c) ps = Some (k, v)" by simp
    then have "f k = c" by (auto simp: find_Some_iff)
    with False have "k \<noteq> k'" by auto
    with Cons.IH [OF rest] p show ?thesis by simp
  qed
qed

lemma length_delete_distinct:
  "distinct (map fst al) \<Longrightarrow> map_of al k = Some v \<Longrightarrow>
     Suc (length (AList.delete k al)) = length al"
proof (induction al)
  case Nil
  then show ?case by simp
next
  case (Cons p al)
  obtain k' v' where p: "p = (k', v')" by (cases p)
  show ?case
  proof (cases "k' = k")
    case True
    with Cons.prems p have "k \<notin> fst ` set al" by auto
    then have "AList.delete k al = al" by simp
    with True p show ?thesis by simp
  next
    case False
    with Cons p show ?thesis by simp
  qed
qed

lemma length_update_present:
  "k \<in> fst ` set al \<Longrightarrow> length (AList.update k v al) = length al"
  by (induction al) auto



subsection \<open>Parsing of \<open>replace_value\<close>\<close>






subsection \<open>An entry with an invalid regex\<close>









subsection \<open>Entries that are not parsed before the rules run\<close>

text \<open>
  C1. The claim is that \<open>apply_header_rules\<close> never raises and returns the original
  headers whenever a part of the rules fails to parse. The code evaluated at a
  \<open>replace_value\<close> entry that lacks the required field \<open>replace\<close>, with a header of that
  name present: the entry passes the parsing of \<open>HeaderRules\<close> as a plain mapping, and
  \<open>ReplaceValueRule(**value_rule)\<close> in the third loop raises.
\<close>

theorem apply_raises_on_malformed_entry:
  "apply_header_rules py [(''X-H'', ''abc'')]
     (PDict [(''replace_value'', PDict [(''X-H'', PDict [(''search'', PStr ''a'')])])])
   = Inl ValidationError"
  by (simp add: apply_header_rules_def parse_rules_def structural_keys_def
      HeaderRules_init_def optional_field_def is_empty_def run_rules_def option_items_def
      replace_header_value_def ReplaceValueRule_init_def required_field_def
      validate_search_def dict_get_default_def)


subsection \<open>Renaming onto an existing header\<close>

text \<open>
  C10. In the \<open>replace_name\<close> step, when the header found for the old name is renamed to a
  name that is literally the name of another header of the map, that header's value is
  overwritten by the renamed header's value and the map has one header less; the
  \<open>add\<close> step for the same name would have left the map as it is.
\<close>

theorem rename_overwrites_existing_header:
  assumes "distinct (map fst result)"
    and "find (\<lambda>(key, value). str_lower py key = str_lower py old_name) result = Some (key, value)"
    and "new_name \<noteq> key"
    and "map_of result new_name = Some old_value"
  shows "map_of (rename_header py result (old_name, new_name)) new_name = Some value
       \<and> map_of (rename_header py result (old_name, new_name)) key = None
       \<and> Suc (length (rename_header py result (old_name, new_name))) = length result
       \<and> add_header result (new_name, v) = result"
proof -
  let ?r = "AList.update new_name value (AList.delete key result)"
  have r: "rename_header py result (old_name, new_name) = ?r"
    using assms(2) by (simp add: rename_header_def)
  have k: "map_of result key = Some value" using assms(2) by (rule find_pair_map_of)
  have "map_of (AList.delete key result) new_name = Some old_value"
    using assms(3,4) by simp
  then have "new_name \<in> fst ` set (AList.delete key result)"
    by (auto dest: map_of_SomeD intro: rev_image_eqI)
  then have "length ?r = length (AList.delete key result)"
    by (rule length_update_present)
  with length_delete_distinct [OF assms(1) k] have len: "Suc (length ?r) = length result"
    by simp
  have a: "map_of ?r new_name = Some value" by (simp add: update_conv')
  have b: "map_of ?r key = None" using assms(3) by (simp add: update_conv' delete_conv')
  have c: "add_header result (new_name, v) = result"
    using assms(4) by (auto simp: add_header_def dest: map_of_SomeD intro: rev_image_eqI)
  from a b len c show ?thesis unfolding r by simp
qed

theorem rename_overwrites_existing_header_witness:
  "map_of (rename_header example_python [(''A'', ''1''), (''B'', ''2'')] (''a'', ''B'')) ''B'' = Some ''1''
   \<and> map_of (rename_header example_python [(''A'', ''1''), (''B'', ''2'')] (''a'', ''B'')) ''A'' = None
   \<and> Suc (length (rename_header example_python [(''A'', ''1''), (''B'', ''2'')] (''a'', ''B''))) = 2
   \<and> add_header [(''A'', ''1''), (''B'', ''2'')] (''B'', ''3'') = [(''A'', ''1''), (''B'', ''2'')]"
proof -
  have h1: "distinct (map fst [(''A'', ''1''), (''B'', ''2'')])" by simp
  have h2: "find (\<lambda>(key, value). str_lower example_python key = str_lower example_python ''a'') [(''A'', ''1''), (''B'', ''2'')]
              = Some (''A'', ''1'')"
    by code_simp
  have h3: "''B'' \<noteq> ''A''" by simp
  have h4: "map_of [(''A'', ''1''), (''B'', ''2'')] ''B'' = Some ''2''" by simp
  from rename_overwrites_existing_header [OF h1 h2 h3 h4, of "''3''"]
  show ?thesis by simp
qed

section \<open>Properties of the model cache\<close>

subsection \<open>What each operation records\<close>

lemma effects_emit: "effects (emit e w) = effects w @ [e]"
  by (simp add: emit_def)

lemma effects_set: "effects (CacheService_set w k v t) = effects w @ [CacheSet k v t]"
  by (simp add: CacheService_set_def emit_def)

lemma effects_metrics:
  "effects (record_metrics m h w) = effects w @ [ResolutionTotal m h, ResolutionDuration m]"
  by (simp add: record_metrics_def emit_def)

lemma fst_query_rows: "fst (query_rows db w n) = select_rows db n"
  by (simp add: query_rows_def Let_def)

lemma effects_query_rows:
  "\<exists>es. effects (snd (query_rows db w n)) = effects w @ Query (JoinedRowsByNameOrAlias n) # es"
  by (simp add: query_rows_def Let_def effects_emit)

lemma resolve_from_datastore_queries:
  "\<exists>es. effects (snd (resolve_from_datastore db w n)) =
     effects w @ Query (JoinedRowsByNameOrAlias n) # es"
proof -
  obtain rows w1 where q: "query_rows db w n = (rows, w1)" by (cases "query_rows db w n")
  from effects_query_rows [of db w n] q obtain es
    where w1: "effects w1 = effects w @ Query (JoinedRowsByNameOrAlias n) # es" by auto
  show ?thesis
    unfolding resolve_from_datastore_def Let_def q
    by (auto simp: w1 effects_emit effects_set effects_metrics
        split: sum.splits list.splits option.splits prod.splits)
qed

subsection \<open>Misses of the point lookups\<close>

lemma cached_or_query_miss:
  assumes "\<not> cache_hit_value (cache w key)"
  shows "cached_or_query w key q rebuild None to_dict ttl =
         (Inr None, w\<lparr>effects := effects w @ [CacheGet key, Query q]\<rparr>)"
  using assms by (simp add: cached_or_query_def CacheService_get_def emit_def)

text \<open>
  C8. For each of the four point lookups: when the cache has no truthy value under the
  key and the datastore query finds no row, the result is not-found and the world
  afterwards is the world before with the cache read and the query recorded, so the cache
  content is the same and no cache write has happened.
\<close>

theorem point_lookups_do_not_cache_misses:
  "(\<not> cache_hit_value (cache w (''model:id:'' @ model_id)) \<longrightarrow>
      query_model_by_id db model_id = None \<longrightarrow>
      get_model_by_id db w model_id =
        (Inr None,
         w\<lparr>effects := effects w @
              [CacheGet (''model:id:'' @ model_id), Query (ModelById model_id)]\<rparr>))
   \<and> (\<not> cache_hit_value (cache w (''global_model:id:'' @ global_model_id)) \<longrightarrow>
      query_global_model_by_id db global_model_id = None \<longrightarrow>
      get_global_model_by_id db w global_model_id =
        (Inr None,
         w\<lparr>effects := effects w @
              [CacheGet (''global_model:id:'' @ global_model_id),
               Query (GlobalModelById global_model_id)]\<rparr>))
   \<and> (\<not> cache_hit_value (cache w (''global_model:name:'' @ name)) \<longrightarrow>
      query_global_model_by_name db name = None \<longrightarrow>
      get_global_model_by_name db w name =
        (Inr None,
         w\<lparr>effects := effects w @
              [CacheGet (''global_model:name:'' @ name), Query (GlobalModelByName name)]\<rparr>))
   \<and> (\<not> cache_hit_value
          (cache w (''model:provider_global:'' @ provider_id @ '':'' @ global_model_id')) \<longrightarrow>
      query_model_by_provider_and_global_model db provider_id global_model_id' = None \<longrightarrow>
      get_model_by_provider_and_global_model db w provider_id global_model_id' =
        (Inr None,
         w\<lparr>effects := effects w @
              [CacheGet (''model:provider_global:'' @ provider_id @ '':'' @ global_model_id'),
               Query (ModelByProviderAndGlobalModel provider_id global_model_id')]\<rparr>))"
  by (simp add: get_model_by_id_def get_global_model_by_id_def get_global_model_by_name_def
      get_model_by_provider_and_global_model_def cached_or_query_miss)

theorem point_lookups_do_not_cache_misses_witness:
  "get_model_by_id example_session empty_world ''m9'' =
     (Inr None,
      empty_world\<lparr>effects := effects empty_world @
         [CacheGet (''model:id:'' @ ''m9''), Query (ModelById ''m9'')]\<rparr>)
   \<and> get_global_model_by_id example_session empty_world ''g9'' =
     (Inr None,
      empty_world\<lparr>effects := effects empty_world @
         [CacheGet (''global_model:id:'' @ ''g9''), Query (GlobalModelById ''g9'')]\<rparr>)
   \<and> get_global_model_by_name example_session empty_world ''none'' =
     (Inr None,
      empty_world\<lparr>effects := effects empty_world @
         [CacheGet (''global_model:name:'' @ ''none''), Query (GlobalModelByName ''none'')]\<rparr>)
   \<and> get_model_by_provider_and_global_model example_session empty_world ''p1'' ''gb'' =
     (Inr None,
      empty_world\<lparr>effects := effects empty_world @
         [CacheGet (''model:provider_global:'' @ ''p1'' @ '':'' @ ''gb''),
          Query (ModelByProviderAndGlobalModel ''p1'' ''gb'')]\<rparr>)"
proof -
  have c: "\<not> cache_hit_value (cache empty_world k)" for k
    by (simp add: cache_hit_value_def empty_world_def)
  have q1: "query_model_by_id example_session ''m9'' = None" by code_simp
  have q2: "query_global_model_by_id example_session ''g9'' = None" by code_simp
  have q3: "query_global_model_by_name example_session ''none'' = None" by code_simp
  have q4: "query_model_by_provider_and_global_model example_session ''p1'' ''gb'' = None"
    by code_simp
  from point_lookups_do_not_cache_misses
         [of empty_world "''m9''" example_session "''g9''" "''none''" "''p1''" "''gb''"]
       c q1 q2 q3 q4
  show ?thesis by blast
qed

subsection \<open>The empty name\<close>

text \<open>
  C9. For a name that is empty after trimming, the resolution returns not-found and the
  world afterwards is the world before: nothing is read from or written to the cache, no
  query is sent, and the cache content is unchanged.
\<close>

theorem empty_name_is_not_found_without_effects:
  "str_strip db model_name = [] \<Longrightarrow>
     resolve_global_model_by_name_or_alias db w model_name = (Inr None, w)"
  by (simp add: resolve_global_model_by_name_or_alias_def)

theorem empty_name_is_not_found_without_effects_witness:
  "resolve_global_model_by_name_or_alias example_session partial_snapshot_world ''  ''
     = (Inr None, partial_snapshot_world)"
proof -
  have h: "str_strip example_session ''  '' = []" by code_simp
  from empty_name_is_not_found_without_effects [OF h] show ?thesis .
qed

subsection \<open>Snapshots of an older shape\<close>

lemma resolve_miss:
  assumes "str_strip db model_name \<noteq> []"
    and "\<not> cache_hit_value (cache w (''global_model:resolve:'' @ str_strip db model_name))"
  shows "resolve_global_model_by_name_or_alias db w model_name =
         resolve_from_datastore db
           (emit (CacheGet (''global_model:resolve:'' @ str_strip db model_name)) w)
           (str_strip db model_name)"
proof (cases "cache w (''global_model:resolve:'' @ str_strip db model_name)")
  case None
  with assms(1) show ?thesis
    by (simp add: resolve_global_model_by_name_or_alias_def CacheService_get_def Let_def)
next
  case (Some v)
  with assms(2) have "\<not> truthy v" by (simp add: cache_hit_value_def)
  with Some assms(1) show ?thesis
    by (simp add: resolve_global_model_by_name_or_alias_def CacheService_get_def Let_def)
qed

text \<open>
  A cached mapping that has \<open>supported_capabilities\<close> and lacks \<open>name\<close> passes the
  staleness test and then fails in \<open>_dict_to_global_model\<close>: the resolution raises
  \<open>KeyError\<close>, after the metrics of a cache hit, and sends no query.
\<close>

lemma snapshot_without_name_raises:
  "resolve_global_model_by_name_or_alias example_session nameless_snapshot_world ''model-a''
     = (Inl KeyError,
        nameless_snapshot_world
          \<lparr>effects := [CacheGet ''global_model:resolve:model-a'',
                       ResolutionTotal ''direct_match'' True,
                       ResolutionDuration ''direct_match'']\<rparr>)"
proof -
  have s: "str_strip example_session ''model-a'' = ''model-a''" by code_simp
  show ?thesis
    unfolding resolve_global_model_by_name_or_alias_def s Let_def
    by (simp add: nameless_snapshot_world_def CacheService_get_def emit_def
        stale_snapshot_def dict_to_global_model_def subscript_def record_metrics_def)
qed

text \<open>
  A cached mapping that has \<open>supported_capabilities\<close> is a hit whatever else it holds:
  it goes to \<open>_dict_to_global_model\<close>, and no query is sent.
\<close>

lemma snapshot_with_capabilities_is_hit:
  assumes "str_strip db model_name \<noteq> []"
    and "cache w (''global_model:resolve:'' @ str_strip db model_name) = Some (PDict d)"
    and "''supported_capabilities'' \<in> set (map fst d)"
  shows "resolve_global_model_by_name_or_alias db w model_name =
           (rbind (dict_to_global_model (PDict d)) (\<lambda>g. Inr (Some g)),
            record_metrics ''direct_match'' True
              (emit (CacheGet (''global_model:resolve:'' @ str_strip db model_name)) w))"
proof -
  from assms(3) have "d \<noteq> []" by auto
  with assms show ?thesis
    by (simp add: resolve_global_model_by_name_or_alias_def CacheService_get_def Let_def
        stale_snapshot_def emit_def)
qed

text \<open>
  C2, as stated: a positive cached value that lacks any field the reconstructor reads is
  treated as a miss and the datastore is queried. It fails for a snapshot that has
  \<open>supported_capabilities\<close> and lacks \<open>description\<close> (and seven more of the eleven
  fields): the snapshot is rebuilt with the defaults and returned as a cache hit, and no
  query is sent.
\<close>

theorem stale_entry_is_miss_counterexample:
  "cache partial_snapshot_world (''global_model:resolve:'' @ str_strip example_session ''model-a'')
     = Some (PDict partial_snapshot)
   \<and> truthy (PDict partial_snapshot)
   \<and> PDict partial_snapshot \<noteq> PStr ''NOT_FOUND''
   \<and> ''description'' \<in> set global_model_fields
   \<and> ''description'' \<notin> set (map fst partial_snapshot)
   \<and> fst (resolve_global_model_by_name_or_alias example_session partial_snapshot_world
            ''model-a'')
       = Inr (Some ((example_global_model ''ga'' ''model-a'')\<lparr>gm_description := PNone\<rparr>))
   \<and> effects (snd (resolve_global_model_by_name_or_alias example_session
            partial_snapshot_world ''model-a''))
       = [CacheGet ''global_model:resolve:model-a'',
          ResolutionTotal ''direct_match'' True, ResolutionDuration ''direct_match'']"
proof -
  have s: "str_strip example_session ''model-a'' = ''model-a''" by code_simp
  show ?thesis
    unfolding resolve_global_model_by_name_or_alias_def s Let_def
    by (simp add: partial_snapshot_world_def partial_snapshot_def global_model_fields_def
        CacheService_get_def emit_def stale_snapshot_def dict_to_global_model_def
        subscript_def get_or_def dict_get_default_def record_metrics_def
        example_global_model_def)
qed

text \<open>
  C2, amended: a truthy cached mapping under the resolve key that lacks the field
  \<open>supported_capabilities\<close> is treated as a miss: the resolution continues exactly as
  \<open>resolve_from_datastore\<close> does after the cache read, and the joined query is sent. A
  mapping that has \<open>supported_capabilities\<close> is not probed for its other fields.
\<close>

theorem snapshot_without_capabilities_is_miss:
  assumes "str_strip db model_name \<noteq> []"
    and "cache w (''global_model:resolve:'' @ str_strip db model_name) = Some (PDict d)"
    and "d \<noteq> []"
    and "''supported_capabilities'' \<notin> set (map fst d)"
  shows "resolve_global_model_by_name_or_alias db w model_name =
           resolve_from_datastore db
             (emit (CacheGet (''global_model:resolve:'' @ str_strip db model_name)) w)
             (str_strip db model_name)
       \<and> Query (JoinedRowsByNameOrAlias (str_strip db model_name))
           \<in> set (effects (snd (resolve_global_model_by_name_or_alias db w model_name)))"
proof -
  let ?w1 = "emit (CacheGet (''global_model:resolve:'' @ str_strip db model_name)) w"
  have eq: "resolve_global_model_by_name_or_alias db w model_name =
              resolve_from_datastore db ?w1 (str_strip db model_name)"
    using assms
    by (simp add: resolve_global_model_by_name_or_alias_def CacheService_get_def
        stale_snapshot_def Let_def)
  from resolve_from_datastore_queries [of db ?w1 "str_strip db model_name"]
  have "Query (JoinedRowsByNameOrAlias (str_strip db model_name))
          \<in> set (effects (snd (resolve_from_datastore db ?w1 (str_strip db model_name))))"
    by auto
  with eq show ?thesis by simp
qed

theorem snapshot_without_capabilities_is_miss_witness:
  "resolve_global_model_by_name_or_alias example_session old_snapshot_world ''dup'' =
     resolve_from_datastore example_session
       (emit (CacheGet (''global_model:resolve:'' @ ''dup'')) old_snapshot_world) ''dup''
   \<and> Query (JoinedRowsByNameOrAlias ''dup'')
       \<in> set (effects (snd (resolve_global_model_by_name_or_alias example_session
                              old_snapshot_world ''dup'')))"
proof -
  have s: "str_strip example_session ''dup'' = ''dup''" by code_simp
  have h1: "str_strip example_session ''dup'' \<noteq> []" by (simp add: s)
  have h2: "cache old_snapshot_world (''global_model:resolve:'' @ str_strip example_session ''dup'')
              = Some (PDict [(''id'', PStr ''gb''), (''name'', PStr ''model-b'')])"
    by (simp add: s old_snapshot_world_def)
  have h3: "[(''id'', PStr ''gb''), (''name'', PStr ''model-b'')] \<noteq> []" by simp
  have h4: "''supported_capabilities''
              \<notin> set (map fst [(''id'', PStr ''gb''), (''name'', PStr ''model-b'')])"
    by simp
  from snapshot_without_capabilities_is_miss [OF h1 h2 h3 h4, unfolded s]
  show ?thesis .
qed

subsection \<open>The choice among several candidates\<close>

lemma key_less_str:
  assumes "is_str (gm_name (fst x))" "is_str (gm_name (fst y))"
  shows "key_less (match_sort_key y) (match_sort_key x) = Inr (str_key y < str_key x)"
proof -
  from assms obtain a b where "gm_name (fst x) = PStr a" "gm_name (fst y) = PStr b"
    by (auto simp: is_str_def split: pyval.splits)
  then show ?thesis
    by (auto simp: match_sort_key_def str_key_def less_prod_def)
qed

lemma insert_sorted_insort:
  assumes "is_str (gm_name (fst x))" "\<forall>y\<in>set ys. is_str (gm_name (fst y))"
  shows "insert_sorted x ys = Inr (insort_key str_key x ys)"
  using assms(2)
proof (induction ys)
  case Nil
  then show ?case by simp
next
  case (Cons y ys)
  then show ?case
    using assms(1) by (auto simp: key_less_str not_less)
qed

lemma sort_matches_sort:
  "\<forall>x\<in>set xs. is_str (gm_name (fst x)) \<Longrightarrow> sort_matches xs = Inr (sort_key str_key xs)"
proof (induction xs)
  case Nil
  then show ?case by simp
next
  case (Cons x xs)
  then show ?case by (simp add: insert_sorted_insort)
qed

lemma sort_key_head_least:
  assumes "sort_key f xs = z # zs"
  shows "z \<in> set xs \<and> (\<forall>x\<in>set xs. f z \<le> f x)"
proof -
  have s: "set (z # zs) = set xs" using assms set_sort [of f xs] by simp
  have "sorted (map f (z # zs))" using assms sorted_sort_key [of f xs] by simp
  then have "\<forall>x\<in>set zs. f z \<le> f x" by simp
  with s show ?thesis by auto
qed

text \<open>The step of the matching, when it does not raise.\<close>

lemma match_row_Inr:
  assumes "match_row db n d (m, g) = Inr d'"
  shows "\<exists>hit. alias_matches db n m = Inr hit
           \<and> d' = (if hit then AList.update (m_id m, gm_id g) (g, ''alias'', 0) d
                   else if m_provider_model_name m = PStr n \<and> map_of d (m_id m, gm_id g) = None
                   then AList.update (m_id m, gm_id g) (g, ''provider_model_name'', 1) d
                   else d)"
proof (cases "alias_matches db n m")
  case (Inl e)
  with assms show ?thesis by (simp add: match_row_def)
next
  case (Inr hit)
  with assms show ?thesis
    by (cases hit)
      (auto simp: match_row_def Let_def update_conv' split: if_splits option.splits)
qed

lemma match_row_sound:
  assumes "tags_sound db n seen d" "match_row db n d row = Inr d'"
  shows "tags_sound db n (seen @ [row]) d'"
proof -
  obtain m g where row: "row = (m, g)" by (cases row)
  from match_row_Inr [OF assms(2) [unfolded row]] obtain hit
    where hit: "alias_matches db n m = Inr hit"
      and d': "d' = (if hit then AList.update (m_id m, gm_id g) (g, ''alias'', 0) d
                   else if m_provider_model_name m = PStr n \<and> map_of d (m_id m, gm_id g) = None
                   then AList.update (m_id m, gm_id g) (g, ''provider_model_name'', 1) d
                   else d)" by blast
  have old: "\<exists>m'. (m', g') \<in> set (seen @ [row]) \<and> row_key (m', g') = k
           \<and> (if t = ''alias'' then matches_by_alias db n (m', g')
               else t = ''provider_model_name'' \<and> matches_by_name n (m', g'))"
    if "map_of d k = Some (g', t, p)" for k g' t p
    using assms(1) that unfolding tags_sound_def by fastforce
  show ?thesis
    unfolding tags_sound_def
  proof (intro allI impI)
    fix k g' t p
    assume e: "map_of d' k = Some (g', t, p)"
    show "\<exists>m'. (m', g') \<in> set (seen @ [row]) \<and> row_key (m', g') = k
           \<and> (if t = ''alias'' then matches_by_alias db n (m', g')
               else t = ''provider_model_name'' \<and> matches_by_name n (m', g'))"
    proof (cases "map_of d k = Some (g', t, p)")
      case True
      then show ?thesis by (rule old)
    next
      case False
      with e d' have new: "k = (m_id m, gm_id g)"
        "(g', t, p) = (if hit then (g, ''alias'', 0) else (g, ''provider_model_name'', 1))"
        "hit \<or> m_provider_model_name m = PStr n"
        by (auto simp: update_conv' split: if_splits)
      then show ?thesis
        using hit row
        by (intro exI [of _ m])
          (auto simp: row_key_def matches_by_alias_def matches_by_name_def split: if_splits)
    qed
  qed
qed

lemma match_row_complete:
  assumes "tags_complete db n seen d" "match_row db n d row = Inr d'"
  shows "tags_complete db n (seen @ [row]) d'"
proof -
  obtain m g where row: "row = (m, g)" by (cases row)
  from match_row_Inr [OF assms(2) [unfolded row]] obtain hit
    where hit: "alias_matches db n m = Inr hit"
      and d': "d' = (if hit then AList.update (m_id m, gm_id g) (g, ''alias'', 0) d
                   else if m_provider_model_name m = PStr n \<and> map_of d (m_id m, gm_id g) = None
                   then AList.update (m_id m, gm_id g) (g, ''provider_model_name'', 1) d
                   else d)" by blast
  have keep_alias: "\<exists>g'. map_of d' k = Some (g', ''alias'', 0)"
    if "map_of d k = Some (g0, ''alias'', 0)" for k g0
    using that d' by (auto simp: update_conv')
  have keep_any: "map_of d' k \<noteq> None" if "map_of d k \<noteq> None" for k
    using that d' by (auto simp: update_conv')
  have this_alias: "\<exists>g'. map_of d' (row_key row) = Some (g', ''alias'', 0)"
    if "matches_by_alias db n row"
    using that hit d' row by (simp add: matches_by_alias_def row_key_def update_conv')
  have this_name: "map_of d' (row_key row) \<noteq> None" if "matches_by_name n row"
    using that d' row by (auto simp: matches_by_name_def row_key_def update_conv')
  show ?thesis
    unfolding tags_complete_def
  proof (intro ballI conjI impI)
    fix r
    assume r: "r \<in> set (seen @ [row])"
    {
      assume a: "matches_by_alias db n r"
      show "\<exists>g. map_of d' (row_key r) = Some (g, ''alias'', 0)"
      proof (cases "r = row")
        case True
        with a this_alias show ?thesis by simp
      next
        case False
        with r have "r \<in> set seen" by simp
        with assms(1) a obtain g0 where "map_of d (row_key r) = Some (g0, ''alias'', 0)"
          unfolding tags_complete_def by blast
        then show ?thesis by (rule keep_alias)
      qed
    }
    {
      assume a: "matches_by_name n r"
      show "map_of d' (row_key r) \<noteq> None"
      proof (cases "r = row")
        case True
        with a this_name show ?thesis by simp
      next
        case False
        with r have "r \<in> set seen" by simp
        with assms(1) a have "map_of d (row_key r) \<noteq> None"
          unfolding tags_complete_def by blast
        then show ?thesis by (rule keep_any)
      qed
    }
  qed
qed

lemma match_row_distinct:
  assumes "distinct (map fst d)" "match_row db n d row = Inr d'"
  shows "distinct (map fst d')"
proof -
  obtain m g where row: "row = (m, g)" by (cases row)
  from match_row_Inr [OF assms(2) [unfolded row]] assms(1) show ?thesis
    by (auto simp: distinct_update)
qed

lemma fold_r_invariant:
  assumes "fold_r f a xs = Inr b"
    and "I pre a"
    and "\<And>ys x c c'. I ys c \<Longrightarrow> f c x = Inr c' \<Longrightarrow> I (ys @ [x]) c'"
  shows "I (pre @ xs) b"
  using assms(1,2)
proof (induction xs arbitrary: a pre)
  case Nil
  then show ?case by simp
next
  case (Cons x xs)
  from Cons.prems(1) obtain c where c: "f a x = Inr c" and rest: "fold_r f c xs = Inr b"
    by (cases "f a x") auto
  from assms(3) [OF Cons.prems(2) c] have "I (pre @ [x]) c" .
  from Cons.IH [OF rest this] show ?case by simp
qed

lemma matched_models_tags:
  assumes "matched_models db n = Inr matched"
  shows "tags_sound db n (select_rows db n) matched"
    and "tags_complete db n (select_rows db n) matched"
    and "distinct (map fst matched)"
proof -
  have f: "fold_r (match_row db n) [] (select_rows db n) = Inr matched"
    using assms by (simp add: matched_models_def)
  have "tags_sound db n ([] @ select_rows db n) matched"
    using f
  proof (rule fold_r_invariant)
    show "tags_sound db n [] []" by (simp add: tags_sound_def)
  qed (rule match_row_sound)
  then show "tags_sound db n (select_rows db n) matched" by simp
  have "tags_complete db n ([] @ select_rows db n) matched"
    using f
  proof (rule fold_r_invariant)
    show "tags_complete db n [] []" by (simp add: tags_complete_def)
  qed (rule match_row_complete)
  then show "tags_complete db n (select_rows db n) matched" by simp
  have "(\<lambda>seen d. distinct (map fst d)) ([] @ select_rows db n) matched"
    using f
  proof (rule fold_r_invariant)
    show "distinct (map fst ([] :: matched))" by simp
  qed (rule match_row_distinct)
  then show "distinct (map fst matched)" by simp
qed


lemma candidates_nonempty: "matched \<noteq> [] \<Longrightarrow> candidates matched \<noteq> []"
  by (simp add: candidates_def)

lemma update_entry: "e \<in> set (AList.update k v d) \<Longrightarrow> e = (k, v) \<or> e \<in> set d"
  by (induction d) (auto split: if_splits)

lemma foldl_update_values:
  assumes "\<forall>x\<in>set xs. P (fst x)" "\<forall>e\<in>set d. P (snd e)"
  shows "\<forall>e\<in>set (foldl (\<lambda>d item. AList.update (gm_id (fst item)) (fst item) d) d xs).
           P (snd e)"
  using assms
proof (induction xs arbitrary: d)
  case Nil
  then show ?case by simp
next
  case (Cons x xs)
  have "\<forall>e\<in>set (AList.update (gm_id (fst x)) (fst x) d). P (snd e)"
  proof
    fix e
    assume "e \<in> set (AList.update (gm_id (fst x)) (fst x) d)"
    then have "e = (gm_id (fst x), fst x) \<or> e \<in> set d" by (rule update_entry)
    with Cons.prems show "P (snd e)" by auto
  qed
  with Cons.IH [of "AList.update (gm_id (fst x)) (fst x) d"] Cons.prems(1)
  show ?case by simp
qed

lemma unique_models_names:
  assumes "\<forall>x\<in>set xs. is_str (gm_name (fst x))"
  shows "list_all (\<lambda>(i, gm). is_str (gm_name gm)) (unique_models xs)"
proof -
  from foldl_update_values [of xs "\<lambda>g. is_str (gm_name g)" "[]"] assms
  have "\<forall>e\<in>set (unique_models xs). is_str (gm_name (snd e))"
    by (simp add: unique_models_def)
  then show ?thesis by (auto simp: list_all_iff)
qed

lemma resolve_from_datastore_selects:
  assumes m: "matched_models db n = Inr matched"
    and ne: "matched \<noteq> []"
    and strs: "\<forall>x\<in>set (candidates matched). is_str (gm_name (fst x))"
  shows "\<exists>g t zs. sort_key str_key (candidates matched) = (g, t) # zs
           \<and> fst (resolve_from_datastore db w n) = Inr (Some g)"
proof -
  have "sort_key str_key (candidates matched) \<noteq> []"
    using candidates_nonempty [OF ne] by (metis length_sort list.size(3) length_0_conv)
  then obtain g t zs where hd: "sort_key str_key (candidates matched) = (g, t) # zs"
    by (cases "sort_key str_key (candidates matched)") auto
  have "set ((g, t) # zs) = set (candidates matched)"
    using set_sort [of str_key "candidates matched"] by (simp add: hd)
  with strs have "\<forall>x\<in>set ((g, t) # zs). is_str (gm_name (fst x))" by simp
  then have names: "list_all (\<lambda>(i, gm). is_str (gm_name gm)) (unique_models ((g, t) # zs))"
    by (rule unique_models_names)
  have f: "fold_r (match_row db n) [] (select_rows db n) = Inr matched"
    using m by (simp add: matched_models_def)
  obtain rows w1 where q: "query_rows db w n = (rows, w1)" by (cases "query_rows db w n")
  then have rows: "rows = select_rows db n" using fst_query_rows [of db w n] by simp
  have "fst (resolve_from_datastore db w n) = Inr (Some g)"
    unfolding resolve_from_datastore_def Let_def q
    using f ne hd names by (simp add: rows sort_matches_sort [OF strs] Let_def)
  with hd show ?thesis by blast
qed

text \<open>
  What \<open>matches_by_alias\<close> says for a list of aliases whose mappings have strings (or
  nothing) under \<open>name\<close>: some mapping of the list has, under \<open>name\<close>, a string that is
  the name once stripped.
\<close>

lemma alias_entry_matches_dict:
  assumes "dict_get_default d ''name'' (PStr []) = PStr s"
  shows "alias_entry_matches db n (PDict d) = Inr (str_strip db s = n)"
  using assms by (simp add: alias_entry_matches_def)

lemma alias_entry_matches_other:
  assumes "\<forall>d. x \<noteq> PDict d"
  shows "alias_entry_matches db n x = Inr False"
  using assms by (cases x) (simp_all add: alias_entry_matches_def)

lemma any_alias_matches_iff:
  assumes "\<forall>d. PDict d \<in> set xs \<longrightarrow> is_str (dict_get_default d ''name'' (PStr []))"
  shows "any_alias_matches db n xs =
           Inr (\<exists>d s. PDict d \<in> set xs
                  \<and> dict_get_default d ''name'' (PStr []) = PStr s \<and> str_strip db s = n)"
  using assms
proof (induction xs)
  case Nil
  then show ?case by simp
next
  case (Cons x xs)
  then have IH: "any_alias_matches db n xs =
           Inr (\<exists>d s. PDict d \<in> set xs
                  \<and> dict_get_default d ''name'' (PStr []) = PStr s \<and> str_strip db s = n)"
    by simp
  show ?case
  proof (cases "\<exists>d. x = PDict d")
    case True
    then obtain d where x: "x = PDict d" by blast
    with Cons.prems obtain s where s: "dict_get_default d ''name'' (PStr []) = PStr s"
      by (auto simp: is_str_def split: pyval.splits)
    show ?thesis
      using s by (auto simp: x IH alias_entry_matches_dict [OF s])
  next
    case False
    then have "alias_entry_matches db n x = Inr False"
      by (simp add: alias_entry_matches_other)
    with False show ?thesis by (auto simp: IH)
  qed
qed

lemma matches_by_alias_list:
  assumes "m_provider_model_aliases m = PList xs"
    and "\<forall>d. PDict d \<in> set xs \<longrightarrow> is_str (dict_get_default d ''name'' (PStr []))"
  shows "matches_by_alias db n (m, g) =
           (\<exists>d s. PDict d \<in> set xs
              \<and> dict_get_default d ''name'' (PStr []) = PStr s \<and> str_strip db s = n)"
proof (cases "xs = []")
  case True
  with assms(1) show ?thesis by (simp add: matches_by_alias_def alias_matches_def)
next
  case False
  with assms(1) show ?thesis
    by (simp add: matches_by_alias_def alias_matches_def any_alias_matches_iff [OF assms(2)])
qed

text \<open>
  C4, as stated: for every input name with at least one matching candidate row, the
  resolution returns the candidate chosen by rank and name. It fails when the cache holds
  an entry for the name: with the negative sentinel cached under the key of \<open>dup\<close>, the
  resolution returns \<open>None\<close> as a cache hit without any query, although the row of
  \<open>model-a\<close> is among the rows of the joined query and matches \<open>dup\<close> by alias.
\<close>

theorem cached_not_found_hides_alias_row_counterexample:
  "(example_model ''m1'' ''p1'' ''ga'' ''x1'' (PList [PDict [(''name'', PStr ''dup'')]]),
    example_global_model ''ga'' ''model-a'')
     \<in> set (select_rows example_session ''dup'')
   \<and> matches_by_alias example_session ''dup''
       (example_model ''m1'' ''p1'' ''ga'' ''x1'' (PList [PDict [(''name'', PStr ''dup'')]]),
        example_global_model ''ga'' ''model-a'')
   \<and> cache not_found_world (''global_model:resolve:'' @ str_strip example_session ''dup'')
       = Some (PStr ''NOT_FOUND'')
   \<and> fst (resolve_global_model_by_name_or_alias example_session not_found_world ''dup'')
       = Inr None
   \<and> effects (snd (resolve_global_model_by_name_or_alias example_session not_found_world
                     ''dup''))
       = [CacheGet ''global_model:resolve:dup'',
          ResolutionTotal ''not_found'' True, ResolutionDuration ''not_found'']"
proof -
  have s: "str_strip example_session ''dup'' = ''dup''" by code_simp
  have r: "(example_model ''m1'' ''p1'' ''ga'' ''x1'' (PList [PDict [(''name'', PStr ''dup'')]]),
            example_global_model ''ga'' ''model-a'')
             \<in> set (select_rows example_session ''dup'')"
    by code_simp
  have a: "matches_by_alias example_session ''dup''
       (example_model ''m1'' ''p1'' ''ga'' ''x1'' (PList [PDict [(''name'', PStr ''dup'')]]),
        example_global_model ''ga'' ''model-a'')"
    by code_simp
  have c: "cache not_found_world (''global_model:resolve:'' @ str_strip example_session ''dup'')
       = Some (PStr ''NOT_FOUND'')"
    by (simp add: s not_found_world_def)
  have rest: "fst (resolve_global_model_by_name_or_alias example_session not_found_world ''dup'')
       = Inr None
   \<and> effects (snd (resolve_global_model_by_name_or_alias example_session not_found_world
                     ''dup''))
       = [CacheGet ''global_model:resolve:dup'',
          ResolutionTotal ''not_found'' True, ResolutionDuration ''not_found'']"
    unfolding resolve_global_model_by_name_or_alias_def s Let_def
    by (simp add: not_found_world_def CacheService_get_def emit_def record_metrics_def)
  from r a c rest show ?thesis by simp
qed

text \<open>
  C4, amended: let the name be non-empty once stripped and let the cache hold no truthy
  entry for it; let the matching of the rows of the joined query raise nothing, let some
  row match the name by alias or by provider-side name, let the names of the global
  models of the rows be strings and their ids identify them. Then the resolution returns
  the global model of a row of the query. If some row matches by alias, the row of the
  result matches by alias, and the name of the result is least among the names of the
  global models of all rows that match by alias, whatever matches by provider-side name.
  If no row matches by alias, the row of the result matches by provider-side name and
  the name of the result is least among the rows that do.
\<close>

theorem alias_row_first_then_least_name:
  assumes norm: "str_strip db model_name = n"
    and name: "n \<noteq> []"
    and miss: "\<not> cache_hit_value (cache w (''global_model:resolve:'' @ n))"
    and run: "matched_models db n = Inr matched"
    and some: "\<exists>row\<in>set (select_rows db n). matches_by_alias db n row \<or> matches_by_name n row"
    and strs: "\<forall>row\<in>set (select_rows db n). is_str (gm_name (snd row))"
    and ids: "\<forall>row\<in>set (select_rows db n). \<forall>row'\<in>set (select_rows db n).
                gm_id (snd row) = gm_id (snd row') \<longrightarrow> snd row = snd row'"
  shows "\<exists>m g. (m, g) \<in> set (select_rows db n)
           \<and> fst (resolve_global_model_by_name_or_alias db w model_name) = Inr (Some g)
           \<and> (if \<exists>row\<in>set (select_rows db n). matches_by_alias db n row
              then matches_by_alias db n (m, g)
                   \<and> (\<forall>row\<in>set (select_rows db n).
                         matches_by_alias db n row \<longrightarrow> name_of g \<le> name_of (snd row))
              else matches_by_name n (m, g)
                   \<and> (\<forall>row\<in>set (select_rows db n).
                         matches_by_name n row \<longrightarrow> name_of g \<le> name_of (snd row)))"
proof -
  let ?rows = "select_rows db n"
  let ?w1 = "emit (CacheGet (''global_model:resolve:'' @ n)) w"
  note tags = matched_models_tags [OF run]
  have sound: "\<exists>m. (m, g) \<in> set ?rows \<and> row_key (m, g) = k
           \<and> (if t = ''alias'' then matches_by_alias db n (m, g)
               else t = ''provider_model_name'' \<and> matches_by_name n (m, g))"
    if "map_of matched k = Some (g, t, p)" for k g t p
    using tags(1) that unfolding tags_sound_def by fastforce
  have cand_entry: "\<exists>k p. map_of matched k = Some (g, t, p)"
    if "(g, t) \<in> set (candidates matched)" for g t
  proof -
    from that obtain k p where "(k, (g, t, p)) \<in> set matched"
      by (auto simp: candidates_def)
    with tags(3) have "map_of matched k = Some (g, t, p)" by simp
    then show ?thesis by blast
  qed
  have entry_cand: "(g, t) \<in> set (candidates matched)"
    if "map_of matched k = Some (g, t, p)" for k g t p
  proof -
    from that have "(k, (g, t, p)) \<in> set matched" by (rule map_of_SomeD)
    then show ?thesis by (force simp: candidates_def)
  qed
  have cand_row: "\<exists>m. (m, g) \<in> set ?rows
           \<and> (if t = ''alias'' then matches_by_alias db n (m, g)
               else t = ''provider_model_name'' \<and> matches_by_name n (m, g))"
    if "(g, t) \<in> set (candidates matched)" for g t
  proof -
    from cand_entry [OF that] obtain k p where "map_of matched k = Some (g, t, p)" by blast
    from sound [OF this] show ?thesis by blast
  qed
  have same: "g0 = snd row"
    if "row \<in> set ?rows" "map_of matched (row_key row) = Some (g0, t, p)" for row g0 t p
  proof -
    from sound [OF that(2)] obtain m0 where m0: "(m0, g0) \<in> set ?rows"
      and k: "row_key (m0, g0) = row_key row" by blast
    from k have "gm_id (snd (m0, g0)) = gm_id (snd row)" by (simp add: row_key_def)
    with ids m0 that(1) have "snd (m0, g0) = snd row" by blast
    then show ?thesis by simp
  qed
  have alias_cand: "(snd row, ''alias'') \<in> set (candidates matched)"
    if "row \<in> set ?rows" "matches_by_alias db n row" for row
  proof -
    from tags(2) that obtain g0 where e: "map_of matched (row_key row) = Some (g0, ''alias'', 0)"
      unfolding tags_complete_def by blast
    from same [OF that(1) e] entry_cand [OF e] show ?thesis by simp
  qed
  have name_cand: "\<exists>t. (snd row, t) \<in> set (candidates matched)"
    if "row \<in> set ?rows" "matches_by_name n row" for row
  proof -
    from tags(2) that have "map_of matched (row_key row) \<noteq> None"
      unfolding tags_complete_def by blast
    then obtain g0 t p where e: "map_of matched (row_key row) = Some (g0, t, p)" by auto
    from same [OF that(1) e] entry_cand [OF e] show ?thesis by auto
  qed
  have "candidates matched \<noteq> []"
    using some alias_cand name_cand by fastforce
  then have ne: "matched \<noteq> []" by (auto simp: candidates_def)
  have strs': "\<forall>x\<in>set (candidates matched). is_str (gm_name (fst x))"
  proof
    fix x
    assume "x \<in> set (candidates matched)"
    then have "(fst x, snd x) \<in> set (candidates matched)" by simp
    from cand_row [OF this] obtain m where "(m, fst x) \<in> set ?rows" by blast
    with strs show "is_str (gm_name (fst x))" by fastforce
  qed
  from resolve_from_datastore_selects [OF run ne strs', of ?w1]
  obtain g t zs where hd: "sort_key str_key (candidates matched) = (g, t) # zs"
    and res: "fst (resolve_from_datastore db ?w1 n) = Inr (Some g)" by blast
  from sort_key_head_least [OF hd]
  have mem: "(g, t) \<in> set (candidates matched)"
    and least: "\<forall>x\<in>set (candidates matched). str_key (g, t) \<le> str_key x" by auto
  from cand_row [OF mem] obtain m where row: "(m, g) \<in> set ?rows"
    and tag: "if t = ''alias'' then matches_by_alias db n (m, g)
              else t = ''provider_model_name'' \<and> matches_by_name n (m, g)" by blast
  have name': "str_strip db model_name \<noteq> []" using norm name by simp
  have miss': "\<not> cache_hit_value (cache w (''global_model:resolve:'' @ str_strip db model_name))"
    using norm miss by simp
  have res': "fst (resolve_global_model_by_name_or_alias db w model_name) = Inr (Some g)"
    using res by (simp add: resolve_miss [OF name' miss'] norm)
  show ?thesis
  proof (cases "\<exists>row\<in>set ?rows. matches_by_alias db n row")
    case True
    then obtain r0 where r0: "r0 \<in> set ?rows" "matches_by_alias db n r0" by blast
    from alias_cand [OF r0] least have "str_key (g, t) \<le> str_key (snd r0, ''alias'')" by blast
    then have t: "t = ''alias''"
      by (auto simp: str_key_def less_eq_prod_def split: if_splits)
    with tag have a: "matches_by_alias db n (m, g)" by simp
    have l: "name_of g \<le> name_of (snd r)"
      if "r \<in> set ?rows" "matches_by_alias db n r" for r
    proof -
      from alias_cand [OF that] least have "str_key (g, t) \<le> str_key (snd r, ''alias'')"
        by blast
      with t show ?thesis by (auto simp: str_key_def name_of_def less_eq_prod_def)
    qed
    from l have "\<forall>r\<in>set ?rows. matches_by_alias db n r \<longrightarrow> name_of g \<le> name_of (snd r)"
      by blast
    with True row res' a show ?thesis by (intro exI [of _ m] exI [of _ g]) simp
  next
    case False
    have t: "t \<noteq> ''alias''"
    proof
      assume "t = ''alias''"
      with tag row False show False by auto
    qed
    with tag have a: "matches_by_name n (m, g)" by simp
    have l: "name_of g \<le> name_of (snd r)"
      if "r \<in> set ?rows" "matches_by_name n r" for r
    proof -
      from name_cand [OF that] obtain t' where c: "(snd r, t') \<in> set (candidates matched)"
        by blast
      from cand_row [OF c] False have t': "t' \<noteq> ''alias''" by auto
      from c least have "str_key (g, t) \<le> str_key (snd r, t')" by blast
      with t t' show ?thesis by (auto simp: str_key_def name_of_def less_eq_prod_def)
    qed
    from l have "\<forall>r\<in>set ?rows. matches_by_name n r \<longrightarrow> name_of g \<le> name_of (snd r)"
      by blast
    with False row res' a show ?thesis by (intro exI [of _ m] exI [of _ g]) simp
  qed
qed

theorem alias_row_first_then_least_name_witness:
  "fst (resolve_global_model_by_name_or_alias example_session empty_world ''dup'')
     = Inr (Some (example_global_model ''ga'' ''model-a''))"
proof -
  let ?gb = "example_global_model ''gb'' ''model-b''"
  let ?ga = "example_global_model ''ga'' ''model-a''"
  let ?g0 = "example_global_model ''g0'' ''aaa''"
  let ?matched =
    "[((PStr ''m2'', PStr ''gb''), (?gb, ''alias'', 0::nat)),
      ((PStr ''m1'', PStr ''ga''), (?ga, ''alias'', 0)),
      ((PStr ''m3'', PStr ''g0''), (?g0, ''provider_model_name'', 1))]"
  define r1 where "r1 =
    (example_model ''m1'' ''p1'' ''ga'' ''x1'' (PList [PDict [(''name'', PStr ''dup'')]]), ?ga)"
  define r2 where "r2 =
    (example_model ''m2'' ''p2'' ''gb'' ''x2'' (PList [PDict [(''name'', PStr ''dup'')]]), ?gb)"
  define r3 where "r3 = (example_model ''m3'' ''p1'' ''g0'' ''dup'' PNone, ?g0)"
  have rows: "select_rows example_session ''dup'' = [r2, r1, r3]"
    unfolding r1_def r2_def r3_def by code_simp
  have norm: "str_strip example_session ''dup'' = ''dup''" by code_simp
  have name: "''dup'' \<noteq> []" by simp
  have miss: "\<not> cache_hit_value (cache empty_world (''global_model:resolve:'' @ ''dup''))"
    by (simp add: cache_hit_value_def empty_world_def)
  have run: "matched_models example_session ''dup'' = Inr ?matched" by code_simp
  have a1: "matches_by_alias example_session ''dup'' r1" unfolding r1_def by code_simp
  have a3: "\<not> matches_by_alias example_session ''dup'' r3" unfolding r3_def by code_simp
  have n1: "name_of (snd r1) = ''model-a''"
    by (simp add: r1_def name_of_def example_global_model_def)
  have n2: "name_of (snd r2) = ''model-b''"
    by (simp add: r2_def name_of_def example_global_model_def)
  have some: "\<exists>row\<in>set (select_rows example_session ''dup'').
                matches_by_alias example_session ''dup'' row \<or> matches_by_name ''dup'' row"
    using a1 by (simp add: rows)
  have strs: "\<forall>row\<in>set (select_rows example_session ''dup''). is_str (gm_name (snd row))"
    by (simp add: rows r1_def r2_def r3_def is_str_def example_global_model_def)
  have ids: "\<forall>row\<in>set (select_rows example_session ''dup'').
               \<forall>row'\<in>set (select_rows example_session ''dup'').
                 gm_id (snd row) = gm_id (snd row') \<longrightarrow> snd row = snd row'"
    by (simp add: rows r1_def r2_def r3_def example_global_model_def)
  note r = alias_row_first_then_least_name [OF norm name miss run some strs ids, unfolded rows]
  from r obtain m g where mem: "(m, g) \<in> set [r2, r1, r3]"
    and res: "fst (resolve_global_model_by_name_or_alias example_session empty_world ''dup'')
                = Inr (Some g)"
    and choice: "if \<exists>row\<in>set [r2, r1, r3]. matches_by_alias example_session ''dup'' row
              then matches_by_alias example_session ''dup'' (m, g)
                   \<and> (\<forall>row\<in>set [r2, r1, r3].
                         matches_by_alias example_session ''dup'' row
                         \<longrightarrow> name_of g \<le> name_of (snd row))
              else matches_by_name ''dup'' (m, g)
                   \<and> (\<forall>row\<in>set [r2, r1, r3].
                         matches_by_name ''dup'' row \<longrightarrow> name_of g \<le> name_of (snd row))"
    by (elim exE conjE)
  have ex: "\<exists>row\<in>set [r2, r1, r3]. matches_by_alias example_session ''dup'' row"
    using a1 by simp
  note both = choice [unfolded if_P [OF ex]]
  note a = both [THEN conjunct1] and l = both [THEN conjunct2]
  from l a1 have le: "name_of g \<le> ''model-a''" by (simp add: n1)
  from mem a a3 have "(m, g) = r2 \<or> (m, g) = r1" by auto
  moreover have "(m, g) \<noteq> r2"
  proof
    assume "(m, g) = r2"
    then have "g = snd r2" by (metis snd_conv)
    with le n2 show False by simp
  qed
  ultimately have "(m, g) = r1" by simp
  then have "g = snd r1" by (metis snd_conv)
  then have "g = ?ga" by (simp add: r1_def)
  with res show ?thesis by simp
qed

end
